theory Spec2Isabelle
  imports Complex_Main
begin

section \<open>Strings as the schema and the store see them\<close>

text \<open>
  A JavaScript string is modelled as a \<^typ>\<open>string\<close> (a list of 8-bit characters), so
  every statement below is about ASCII text: \<open>length\<close> counts characters, white space is
  the ASCII white space that \<open>String.prototype.trim\<close> removes, and case folding is the
  folding of the letters A to Z. A JavaScript \<open>number\<close> is modelled as a rational
  (\<^typ>\<open>rat\<close>); \<open>NaN\<close> and the infinities are outside the model. A \<open>Date\<close> is its
  number of milliseconds, an \<^typ>\<open>int\<close>.
\<close>

definition isSpace :: "char \<Rightarrow> bool" where
  "isSpace c \<longleftrightarrow> c \<in> set [CHR '' '', CHR 0x09, CHR 0x0A, CHR 0x0B, CHR 0x0C, CHR 0x0D]"

definition trim :: "string \<Rightarrow> string" where
  \<comment> \<open>\<open>trim: true\<close> of a schema path: the setter \<open>v.trim()\<close>.\<close>
  "trim s = rev (dropWhile isSpace (rev (dropWhile isSpace s)))"

definition isDigit :: "char \<Rightarrow> bool" where
  \<comment> \<open>\<open>\d\<close> of a JavaScript regular expression without the \<open>u\<close> flag.\<close>
  "isDigit c \<longleftrightarrow> c \<in> set ''0123456789''"

definition toLowerCase :: "char \<Rightarrow> char" where
  "toLowerCase c =
     (case map_of (zip ''ABCDEFGHIJKLMNOPQRSTUVWXYZ'' ''abcdefghijklmnopqrstuvwxyz'') c of
        None \<Rightarrow> c
      | Some l \<Rightarrow> l)"

fun startsWithBy :: "(char \<Rightarrow> char \<Rightarrow> bool) \<Rightarrow> string \<Rightarrow> string \<Rightarrow> bool" where
  "startsWithBy eq [] s = True"
| "startsWithBy eq (p # ps) [] = False"
| "startsWithBy eq (p # ps) (c # cs) = (eq p c \<and> startsWithBy eq ps cs)"

fun occursBy :: "(char \<Rightarrow> char \<Rightarrow> bool) \<Rightarrow> string \<Rightarrow> string \<Rightarrow> bool" where
  "occursBy eq p [] = startsWithBy eq p []"
| "occursBy eq p (c # cs) = (startsWithBy eq p (c # cs) \<or> occursBy eq p cs)"

definition sameLetter :: "char \<Rightarrow> char \<Rightarrow> bool" where
  "sameLetter p c \<longleftrightarrow> toLowerCase p = toLowerCase c"

definition containsIgnoreCase :: "string \<Rightarrow> string \<Rightarrow> bool" where
  \<comment> \<open>\<open>text\<close> occurs in \<open>s\<close> as a case-insensitive substring.\<close>
  "containsIgnoreCase text s = occursBy sameLetter text s"

section \<open>The Book document and its schema (book.schema.ts)\<close>

text \<open>
  \<open>IBook\<close>: a stored document. The field \<open>oid\<close> is the document's \<open>_id\<close>, held as the
  24 lower-case hexadecimal characters of the ObjectId.
\<close>

record book =
  oid :: string
  title :: string
  author :: string
  isbn :: string
  publishedYear :: rat
  genre :: string
  price :: rat
  inStock :: bool
  createdAt :: int
  updatedAt :: int

text \<open>
  \<open>Partial<IBook>\<close> restricted to the seven paths the schema declares: what a request
  body supplies. A field that is absent from the body is \<open>None\<close>. Values of another
  JavaScript type than the declared one are excluded by the type, and so are the
  casts the store client would apply to them.
\<close>

record book_data =
  title' :: "string option"
  author' :: "string option"
  isbn' :: "string option"
  publishedYear' :: "rat option"
  genre' :: "string option"
  price' :: "rat option"
  inStock' :: "bool option"

text \<open>
  The body of an update request: the seven paths and the three fields the controller
  deletes before it calls the service.
\<close>

record update_data = book_data +
  oid' :: "string option"
  createdAt' :: "int option"
  updatedAt' :: "int option"

definition genreValues :: "string list" where
  "genreValues = [''Fiction'', ''Non-Fiction'', ''Science'', ''Technology'', ''Biography'',
     ''History'', ''Fantasy'', ''Mystery'', ''Romance'', ''Thriller'', ''Other'']"

definition titleValid :: "string \<Rightarrow> bool" where
  \<comment> \<open>required (a string is required to be non-empty), minlength 1, maxlength 200\<close>
  "titleValid v \<longleftrightarrow> v \<noteq> [] \<and> 1 \<le> length v \<and> length v \<le> 200"

definition authorValid :: "string \<Rightarrow> bool" where
  "authorValid v \<longleftrightarrow> v \<noteq> [] \<and> 2 \<le> length v"

definition isbnValidator :: "string \<Rightarrow> bool" where
  \<comment> \<open>\<open>/^(?:\d{10}|\d{13})$/.test(v.replace(/-/g, ''))\<close>\<close>
  "isbnValidator v =
     (let s = filter (\<lambda>c. c \<noteq> CHR ''-'') v
      in list_all isDigit s \<and> (length s = 10 \<or> length s = 13))"

definition isbnValid :: "string \<Rightarrow> bool" where
  "isbnValid v \<longleftrightarrow> v \<noteq> [] \<and> isbnValidator v"

definition publishedYearValid :: "rat \<Rightarrow> rat \<Rightarrow> bool" where
  \<comment> \<open>\<open>min: 1000\<close>, \<open>max: new Date().getFullYear()\<close>; the maximum is computed once, when
      the schema is built, and is the first argument here.\<close>
  "publishedYearValid yearLimit v \<longleftrightarrow> 1000 \<le> v \<and> v \<le> yearLimit"

definition genreValid :: "string \<Rightarrow> bool" where
  "genreValid v \<longleftrightarrow> v \<noteq> [] \<and> v \<in> set genreValues"

definition priceValid :: "rat \<Rightarrow> bool" where
  "priceValid v \<longleftrightarrow> 0 \<le> v"

definition checkPath :: "bool \<Rightarrow> string \<Rightarrow> 'a option \<Rightarrow> ('a \<Rightarrow> bool) \<Rightarrow> string list" where
  \<comment> \<open>One schema path. When a new document is validated an absent required path fails;
      the validators of an update run on the supplied paths only.\<close>
  "checkPath isNew name v ok =
     (case v of
        None \<Rightarrow> if isNew then [name] else []
      | Some x \<Rightarrow> if ok x then [] else [name])"

definition validationErrors :: "bool \<Rightarrow> rat \<Rightarrow> 'a book_data_scheme \<Rightarrow> string list" where
  \<comment> \<open>The names of the paths whose validation fails, in the order of the schema. The
      setters (\<open>trim\<close>) run before the validators.\<close>
  "validationErrors isNew yearLimit d =
     checkPath isNew ''title'' (map_option trim (title' d)) titleValid @
     checkPath isNew ''author'' (map_option trim (author' d)) authorValid @
     checkPath isNew ''isbn'' (map_option trim (isbn' d)) isbnValid @
     checkPath isNew ''publishedYear'' (publishedYear' d) (publishedYearValid yearLimit) @
     checkPath isNew ''genre'' (map_option trim (genre' d)) genreValid @
     checkPath isNew ''price'' (price' d) priceValid"

section \<open>The collection behind BookModel\<close>

text \<open>
  \<open>BookModel\<close> is module-level state: the documents of the collection in insertion
  order, whether the connection to the store is usable, and the year the schema read
  from the clock when the module was loaded.
\<close>

record book_model =
  docs :: "book list"
  connected :: bool
  yearLimit :: rat

datatype store_error =
    ValidationError "string list"
  | DuplicateKey string
  | CastError string
  | ImmutableField string
  | StoreUnavailable

definition code :: "store_error \<Rightarrow> nat option" where
  \<comment> \<open>\<open>error.code\<close>: the store's numeric code, 11000 for a duplicate key.\<close>
  "code e = (case e of DuplicateKey k \<Rightarrow> Some 11000 | _ \<Rightarrow> None)"

definition isHexDigit :: "char \<Rightarrow> bool" where
  "isHexDigit c \<longleftrightarrow> c \<in> set ''0123456789abcdefABCDEF''"

definition castObjectId :: "string \<Rightarrow> string option" where
  \<comment> \<open>The store client's cast of an id string to an ObjectId: 24 hexadecimal characters,
      compared without regard to case. Anything else is structurally invalid. (Older
      clients also take any string of 12 characters for the 12 bytes of an id.)\<close>
  "castObjectId s =
     (if length s = 24 \<and> list_all isHexDigit s then Some (map toLowerCase s) else None)"

definition newestFirst :: "book list \<Rightarrow> book list" where
  \<comment> \<open>\<open>.sort({ createdAt: -1 })\<close>\<close>
  "newestFirst bs = sort_key (\<lambda>b. - createdAt b) bs"

definition save :: "book_model \<Rightarrow> int \<Rightarrow> string \<Rightarrow> book_data \<Rightarrow> store_error + book \<times> book_model" where
  \<comment> \<open>\<open>new BookModel(bookData).save()\<close> at time \<open>now\<close>, with \<open>newId\<close> the ObjectId the
      client generates: setters and defaults, validation, then the insert under the
      unique indexes on \<open>_id\<close> and \<open>isbn\<close>. The timestamps are the store's.\<close>
  "save m now newId d =
     (let errs = validationErrors True (yearLimit m) d in
      if errs \<noteq> [] then Inl (ValidationError errs)
      else if \<not> connected m then Inl StoreUnavailable
      else if newId \<in> set (map oid (docs m)) then Inl (DuplicateKey ''_id'')
      else if trim (the (isbn' d)) \<in> set (map isbn (docs m)) then Inl (DuplicateKey ''isbn'')
      else
        let b = \<lparr> oid = newId,
                  title = trim (the (title' d)),
                  author = trim (the (author' d)),
                  isbn = trim (the (isbn' d)),
                  publishedYear = the (publishedYear' d),
                  genre = trim (the (genre' d)),
                  price = the (price' d),
                  inStock = (case inStock' d of None \<Rightarrow> True | Some s \<Rightarrow> s),
                  createdAt = now,
                  updatedAt = now \<rparr>
        in Inr (b, m\<lparr>docs := docs m @ [b]\<rparr>))"

definition findById :: "book_model \<Rightarrow> string \<Rightarrow> store_error + book option" where
  \<comment> \<open>\<open>BookModel.findById(id).exec()\<close>: the id is cast first; a string that is not an
      ObjectId makes the client raise a cast error.\<close>
  "findById m i =
     (case castObjectId i of
        None \<Rightarrow> Inl (CastError ''_id'')
      | Some k \<Rightarrow>
          if \<not> connected m then Inl StoreUnavailable
          else Inr (find (\<lambda>b. oid b = k) (docs m)))"

fun replaceFirst :: "('a \<Rightarrow> bool) \<Rightarrow> 'a \<Rightarrow> 'a list \<Rightarrow> 'a list" where
  "replaceFirst P y [] = []"
| "replaceFirst P y (x # xs) = (if P x then y # xs else x # replaceFirst P y xs)"

fun removeFirst :: "('a \<Rightarrow> bool) \<Rightarrow> 'a list \<Rightarrow> 'a list" where
  "removeFirst P [] = []"
| "removeFirst P (x # xs) = (if P x then xs else x # removeFirst P xs)"

definition applySet :: "int \<Rightarrow> update_data \<Rightarrow> book \<Rightarrow> book" where
  \<comment> \<open>\<open>{ $set: bookData }\<close> on one document, after the setters, with the \<open>updatedAt\<close> of
      \<open>timestamps: true\<close>. The timestamps are the store client's: it drops a supplied
      \<open>createdAt\<close> from the \<open>$set\<close> and writes its own \<open>updatedAt\<close>.\<close>
  "applySet now d b =
     b\<lparr> title := (case title' d of None \<Rightarrow> title b | Some v \<Rightarrow> trim v),
        author := (case author' d of None \<Rightarrow> author b | Some v \<Rightarrow> trim v),
        isbn := (case isbn' d of None \<Rightarrow> isbn b | Some v \<Rightarrow> trim v),
        publishedYear := (case publishedYear' d of None \<Rightarrow> publishedYear b | Some v \<Rightarrow> v),
        genre := (case genre' d of None \<Rightarrow> genre b | Some v \<Rightarrow> trim v),
        price := (case price' d of None \<Rightarrow> price b | Some v \<Rightarrow> v),
        inStock := (case inStock' d of None \<Rightarrow> inStock b | Some v \<Rightarrow> v),
        updatedAt := now \<rparr>"

definition findByIdAndUpdate ::
  "book_model \<Rightarrow> int \<Rightarrow> string \<Rightarrow> update_data \<Rightarrow> store_error + book option \<times> book_model" where
  \<comment> \<open>\<open>BookModel.findByIdAndUpdate(id, { $set: bookData }, { new: true, runValidators: true })\<close>:
      cast of the id, validators of the supplied paths, then the update in the store,
      which refuses a change of \<open>_id\<close> and a second document with the same \<open>isbn\<close>.\<close>
  "findByIdAndUpdate m now i d =
     (case castObjectId i of
        None \<Rightarrow> Inl (CastError ''_id'')
      | Some k \<Rightarrow>
          let errs = validationErrors False (yearLimit m) d in
          if errs \<noteq> [] then Inl (ValidationError errs)
          else if \<not> connected m then Inl StoreUnavailable
          else
            (case find (\<lambda>b. oid b = k) (docs m) of
               None \<Rightarrow> Inr (None, m)
             | Some b \<Rightarrow>
                 let b' = applySet now d b in
                 if oid' d \<noteq> None \<and> oid' d \<noteq> Some k then Inl (ImmutableField ''_id'')
                 else if \<exists>c \<in> set (docs m). oid c \<noteq> k \<and> isbn c = isbn b'
                   then Inl (DuplicateKey ''isbn'')
                 else Inr (Some b', m\<lparr>docs := replaceFirst (\<lambda>b. oid b = k) b' (docs m)\<rparr>)))"

definition findByIdAndDelete :: "book_model \<Rightarrow> string \<Rightarrow> store_error + book option \<times> book_model" where
  \<comment> \<open>\<open>BookModel.findByIdAndDelete(id).exec()\<close>\<close>
  "findByIdAndDelete m i =
     (case castObjectId i of
        None \<Rightarrow> Inl (CastError ''_id'')
      | Some k \<Rightarrow>
          if \<not> connected m then Inl StoreUnavailable
          else
            (case find (\<lambda>b. oid b = k) (docs m) of
               None \<Rightarrow> Inr (None, m)
             | Some b \<Rightarrow> Inr (Some b, m\<lparr>docs := removeFirst (\<lambda>b. oid b = k) (docs m)\<rparr>)))"

definition findSorted :: "book_model \<Rightarrow> (book \<Rightarrow> bool) \<Rightarrow> store_error + book list" where
  \<comment> \<open>\<open>BookModel.find(filter).sort({ createdAt: -1 }).exec()\<close>\<close>
  "findSorted m P =
     (if \<not> connected m then Inl StoreUnavailable else Inr (newestFirst (filter P (docs m))))"

subsection \<open>The store's regular expressions\<close>

text \<open>
  \<open>{ $regex: query, $options: 'i' }\<close> hands the text to the store's regular-expression
  engine. The engine is not part of the repository. What every such engine does with a
  pattern of ordinary characters and dots is written out: an ordinary character
  matches itself in either case, a dot matches any character but a line feed, and the
  pattern is searched for anywhere in the field. Every other pattern is left to the
  parameter \<open>engine\<close>, which answers \<open>None\<close> for a pattern it cannot compile.
\<close>

definition regexSpecial :: "char \<Rightarrow> bool" where
  "regexSpecial c \<longleftrightarrow>
     c \<in> set [CHR 0x5C, CHR ''^'', CHR ''$'', CHR ''.'', CHR ''|'', CHR ''?'', CHR ''*'',
              CHR ''+'', CHR ''('', CHR '')'', CHR ''['', CHR '']'', CHR ''{'', CHR ''}'']"

definition dotOrLetter :: "char \<Rightarrow> char \<Rightarrow> bool" where
  "dotOrLetter p c = (if p = CHR ''.'' then c \<noteq> CHR 0x0A else sameLetter p c)"

type_synonym regex_engine = "string \<Rightarrow> (string \<Rightarrow> bool) option"

definition regexIgnoreCase :: "regex_engine \<Rightarrow> string \<Rightarrow> (string \<Rightarrow> bool) option" where
  "regexIgnoreCase engine pattern =
     (if list_all (\<lambda>c. \<not> regexSpecial c \<or> c = CHR ''.'') pattern
      then Some (occursBy dotOrLetter pattern)
      else engine pattern)"

definition findRegex :: "regex_engine \<Rightarrow> book_model \<Rightarrow> string \<Rightarrow> store_error + book list" where
  \<comment> \<open>\<open>find({ $or: [{ title: { $regex: q, $options: 'i' } }, { author: ... }] })\<close>, sorted\<close>
  "findRegex engine m q =
     (if \<not> connected m then Inl StoreUnavailable
      else case regexIgnoreCase engine q of
        None \<Rightarrow> Inl (CastError ''$regex'')
      | Some matches \<Rightarrow>
          Inr (newestFirst (filter (\<lambda>b. matches (title b) \<or> matches (author b)) (docs m))))"

section \<open>BookService (book.service.ts)\<close>

text \<open>
  Every method catches what the store client throws and throws a plain \<open>Error\<close> in its
  place. \<open>Error p None\<close> is the error whose message is the text \<open>p\<close>;
  \<open>Error p (Some e)\<close> is the error whose message is \<open>p\<close> followed by the message of \<open>e\<close>.
\<close>

datatype service_error = Error string "store_error option"

definition BookService_createBook ::
  "book_model \<Rightarrow> int \<Rightarrow> string \<Rightarrow> book_data \<Rightarrow> service_error + book \<times> book_model" where
  "BookService_createBook m now newId bookData =
     (case save m now newId bookData of
        Inr saved \<Rightarrow> Inr saved
      | Inl e \<Rightarrow>
          if code e = Some 11000 then Inl (Error ''A book with this ISBN already exists'' None)
          else Inl (Error ''Failed to create book: '' (Some e)))"

definition BookService_getAllBooks :: "book_model \<Rightarrow> service_error + book list" where
  "BookService_getAllBooks m =
     (case findSorted m (\<lambda>b. True) of
        Inr books \<Rightarrow> Inr books
      | Inl e \<Rightarrow> Inl (Error ''Failed to fetch books: '' (Some e)))"

definition BookService_getBookById :: "book_model \<Rightarrow> string \<Rightarrow> service_error + book option" where
  "BookService_getBookById m i =
     (case findById m i of
        Inr b \<Rightarrow> Inr b
      | Inl e \<Rightarrow> Inl (Error ''Failed to fetch book: '' (Some e)))"

definition BookService_updateBook ::
  "book_model \<Rightarrow> int \<Rightarrow> string \<Rightarrow> update_data \<Rightarrow> service_error + book option \<times> book_model" where
  "BookService_updateBook m now i bookData =
     (case findByIdAndUpdate m now i bookData of
        Inr updated \<Rightarrow> Inr updated
      | Inl e \<Rightarrow>
          if code e = Some 11000 then Inl (Error ''A book with this ISBN already exists'' None)
          else Inl (Error ''Failed to update book: '' (Some e)))"

definition BookService_deleteBook ::
  "book_model \<Rightarrow> string \<Rightarrow> service_error + book option \<times> book_model" where
  "BookService_deleteBook m i =
     (case findByIdAndDelete m i of
        Inr deleted \<Rightarrow> Inr deleted
      | Inl e \<Rightarrow> Inl (Error ''Failed to delete book: '' (Some e)))"

definition BookService_searchBooks ::
  "regex_engine \<Rightarrow> book_model \<Rightarrow> string \<Rightarrow> service_error + book list" where
  "BookService_searchBooks engine m query =
     (case findRegex engine m query of
        Inr books \<Rightarrow> Inr books
      | Inl e \<Rightarrow> Inl (Error ''Failed to search books: '' (Some e)))"

definition BookService_getBooksByGenre :: "book_model \<Rightarrow> string \<Rightarrow> service_error + book list" where
  \<comment> \<open>\<open>find({ genre })\<close>: the filter value goes through the setter of the path (\<open>trim\<close>)
      and is compared for equality.\<close>
  "BookService_getBooksByGenre m g =
     (case findSorted m (\<lambda>b. genre b = trim g) of
        Inr books \<Rightarrow> Inr books
      | Inl e \<Rightarrow> Inl (Error ''Failed to fetch books by genre: '' (Some e)))"

definition BookService_getInStockBooks :: "book_model \<Rightarrow> service_error + book list" where
  "BookService_getInStockBooks m =
     (case findSorted m (\<lambda>b. inStock b = True) of
        Inr books \<Rightarrow> Inr books
      | Inl e \<Rightarrow> Inl (Error ''Failed to fetch in-stock books: '' (Some e)))"

section \<open>BookController (book.controller.ts)\<close>

text \<open>
  The envelope \<open>{ success, message, data?, count?, error? }\<close> and the HTTP status. A
  message is either a text of the controller or the message of the error it caught.
\<close>

datatype payload = NoData | One book | Many "book list"

datatype message_text = Literal string | MessageOf service_error

record response =
  status :: nat
  success :: bool
  message :: message_text
  data :: payload
  count :: "nat option"
  error :: "service_error option"

definition failure :: "nat \<Rightarrow> string \<Rightarrow> response" where
  \<comment> \<open>\<open>res.status(n).json({ success: false, message })\<close>\<close>
  "failure n msg =
     \<lparr> status = n, success = False, message = Literal msg, data = NoData, count = None,
       error = None \<rparr>"

definition failureWith :: "nat \<Rightarrow> message_text \<Rightarrow> service_error \<Rightarrow> response" where
  \<comment> \<open>\<open>res.status(n).json({ success: false, message, error: error.message })\<close>\<close>
  "failureWith n msg e =
     \<lparr> status = n, success = False, message = msg, data = NoData, count = None,
       error = Some e \<rparr>"

definition found :: "nat \<Rightarrow> string \<Rightarrow> book \<Rightarrow> response" where
  "found n msg b =
     \<lparr> status = n, success = True, message = Literal msg, data = One b, count = None,
       error = None \<rparr>"

definition listed :: "string \<Rightarrow> book list \<Rightarrow> response" where
  \<comment> \<open>\<open>res.status(200).json({ success: true, message, count: books.length, data: books })\<close>\<close>
  "listed msg books =
     \<lparr> status = 200, success = True, message = Literal msg, data = Many books,
       count = Some (length books), error = None \<rparr>"

definition falsy :: "string option \<Rightarrow> bool" where
  \<comment> \<open>\<open>!v\<close> for a value that is a string or undefined\<close>
  "falsy v \<longleftrightarrow> v = None \<or> v = Some []"

datatype query_value = Undefined | Str string | NotAString

definition BookController_createBook ::
  "book_model \<Rightarrow> int \<Rightarrow> string \<Rightarrow> book_data \<Rightarrow> response \<times> book_model" where
  "BookController_createBook m now newId bookData =
     (if falsy (title' bookData) \<or> falsy (author' bookData) \<or> falsy (isbn' bookData)
      then (failure 400 ''Missing required fields: title, author, and isbn are required'', m)
      else case BookService_createBook m now newId bookData of
        Inr (newBook, m') \<Rightarrow> (found 201 ''Book created successfully'' newBook, m')
      | Inl e \<Rightarrow> (failureWith 400 (MessageOf e) e, m))"

definition BookController_getAllBooks :: "book_model \<Rightarrow> response" where
  "BookController_getAllBooks m =
     (case BookService_getAllBooks m of
        Inr books \<Rightarrow> listed ''Books retrieved successfully'' books
      | Inl e \<Rightarrow> failureWith 500 (Literal ''Failed to retrieve books'') e)"

definition BookController_getBookById :: "book_model \<Rightarrow> string option \<Rightarrow> response" where
  "BookController_getBookById m i =
     (if falsy i then failure 400 ''Book ID is required''
      else case BookService_getBookById m (the i) of
        Inr None \<Rightarrow> failure 404 ''Book not found''
      | Inr (Some b) \<Rightarrow> found 200 ''Book retrieved successfully'' b
      | Inl e \<Rightarrow> failureWith 500 (Literal ''Failed to retrieve book'') e)"

definition stripImmutable :: "update_data \<Rightarrow> update_data" where
  \<comment> \<open>\<open>delete updateData._id; delete updateData.createdAt; delete updateData.updatedAt;\<close>\<close>
  "stripImmutable d = d\<lparr> oid' := None, createdAt' := None, updatedAt' := None \<rparr>"

definition BookController_updateBook ::
  "book_model \<Rightarrow> int \<Rightarrow> string option \<Rightarrow> update_data \<Rightarrow> response \<times> book_model" where
  "BookController_updateBook m now i updateData =
     (if falsy i then (failure 400 ''Book ID is required'', m)
      else case BookService_updateBook m now (the i) (stripImmutable updateData) of
        Inr (None, m') \<Rightarrow> (failure 404 ''Book not found'', m')
      | Inr (Some b, m') \<Rightarrow> (found 200 ''Book updated successfully'' b, m')
      | Inl e \<Rightarrow> (failureWith 400 (Literal ''Failed to update book'') e, m))"

definition BookController_deleteBook ::
  "book_model \<Rightarrow> string option \<Rightarrow> response \<times> book_model" where
  "BookController_deleteBook m i =
     (if falsy i then (failure 400 ''Book ID is required'', m)
      else case BookService_deleteBook m (the i) of
        Inr (None, m') \<Rightarrow> (failure 404 ''Book not found'', m')
      | Inr (Some b, m') \<Rightarrow> (found 200 ''Book deleted successfully'' b, m')
      | Inl e \<Rightarrow> (failureWith 500 (Literal ''Failed to delete book'') e, m))"

definition BookController_searchBooks ::
  "regex_engine \<Rightarrow> book_model \<Rightarrow> query_value \<Rightarrow> response" where
  "BookController_searchBooks engine m q =
     (case q of
        Str (c # cs) \<Rightarrow>
          (case BookService_searchBooks engine m (c # cs) of
             Inr books \<Rightarrow> listed ''Search completed successfully'' books
           | Inl e \<Rightarrow> failureWith 500 (Literal ''Failed to search books'') e)
      | _ \<Rightarrow> failure 400 ''Search query is required'')"

definition BookController_getBooksByGenre :: "book_model \<Rightarrow> string option \<Rightarrow> response" where
  "BookController_getBooksByGenre m g =
     (if falsy g then failure 400 ''Genre is required''
      else case BookService_getBooksByGenre m (the g) of
        Inr books \<Rightarrow> listed ''Books retrieved successfully'' books
      | Inl e \<Rightarrow> failureWith 500 (Literal ''Failed to retrieve books by genre'') e)"

definition BookController_getInStockBooks :: "book_model \<Rightarrow> response" where
  "BookController_getInStockBooks m =
     (case BookService_getInStockBooks m of
        Inr books \<Rightarrow> listed ''In-stock books retrieved successfully'' books
      | Inl e \<Rightarrow> failureWith 500 (Literal ''Failed to retrieve in-stock books'') e)"

section \<open>BookRoutes (book.routes.ts)\<close>

text \<open>
  The router keeps its routes in the order of registration and gives a request to the
  first route whose method and path match; no handler of this router passes the
  request on. A path is the list of its segments below the mount point \<open>/api/books\<close>.
  A literal segment matches without regard to case (the router's default), a
  parameter matches any one non-empty segment.
\<close>

datatype http_method = GET | POST | PUT | DELETE

datatype segment = Lit string | Param string

datatype handler =
    CreateBook | GetAllBooks | SearchBooks | GetInStockBooks | GetBooksByGenre
  | GetBookById | UpdateBook | DeleteBook

definition initializeRoutes :: "(http_method \<times> segment list \<times> handler) list" where
  "initializeRoutes =
     [ (POST, [], CreateBook),
       (GET, [], GetAllBooks),
       (GET, [Lit ''search''], SearchBooks),
       (GET, [Lit ''stock'', Lit ''available''], GetInStockBooks),
       (GET, [Lit ''genre'', Param ''genre''], GetBooksByGenre),
       (GET, [Param ''id''], GetBookById),
       (PUT, [Param ''id''], UpdateBook),
       (DELETE, [Param ''id''], DeleteBook) ]"

fun segmentMatches :: "segment \<Rightarrow> string \<Rightarrow> bool" where
  "segmentMatches (Lit l) s = (map toLowerCase l = map toLowerCase s)"
| "segmentMatches (Param n) s = (s \<noteq> [])"

definition routeMatches :: "http_method \<Rightarrow> string list \<Rightarrow> http_method \<times> segment list \<times> handler \<Rightarrow> bool" where
  "routeMatches meth path r =
     (case r of (rm, pattern, h) \<Rightarrow> rm = meth \<and> list_all2 segmentMatches pattern path)"

definition dispatchIn ::
  "(http_method \<times> segment list \<times> handler) list \<Rightarrow> http_method \<Rightarrow> string list \<Rightarrow> handler option" where
  \<comment> \<open>The handler of the first matching route of a table; \<open>None\<close> when no route matches
      and the request falls through to the application's 404 handler.\<close>
  "dispatchIn table meth path =
     map_option (\<lambda>(rm, pattern, h). h) (find (routeMatches meth path) table)"

definition dispatch :: "http_method \<Rightarrow> string list \<Rightarrow> handler option" where
  "dispatch meth path = dispatchIn initializeRoutes meth path"

section \<open>Sample data\<close>

text \<open>Three books of the testing guide, as the store would hold them, for concrete runs.\<close>

definition theHobbit :: book where
  "theHobbit =
     \<lparr> oid = ''507f1f77bcf86cd799439011'', title = ''The Hobbit'', author = ''J.R.R. Tolkien'',
       isbn = ''9780547928227'', publishedYear = 1937, genre = ''Fantasy'', price = 1499 / 100,
       inStock = True, createdAt = 3000, updatedAt = 3000 \<rparr>"

definition cleanCode :: book where
  "cleanCode =
     \<lparr> oid = ''507f1f77bcf86cd799439012'', title = ''Clean Code'', author = ''Robert C. Martin'',
       isbn = ''9780132350884'', publishedYear = 2008, genre = ''Technology'', price = 4299 / 100,
       inStock = True, createdAt = 1000, updatedAt = 1000 \<rparr>"

definition briefHistory :: book where
  "briefHistory =
     \<lparr> oid = ''507f1f77bcf86cd799439013'', title = ''A Brief History of Time'',
       author = ''Stephen Hawking'', isbn = ''9780553380163'', publishedYear = 1988,
       genre = ''Science'', price = 1699 / 100, inStock = False, createdAt = 2000,
       updatedAt = 2000 \<rparr>"

definition sampleModel :: book_model where
  "sampleModel = \<lparr> docs = [cleanCode, briefHistory, theHobbit], connected = True, yearLimit = 2025 \<rparr>"

definition noEngine :: regex_engine where
  \<comment> \<open>An engine that compiles nothing, for runs that stay within ordinary characters.\<close>
  "noEngine pattern = None"

section \<open>What the collection holds\<close>

definition bookValid :: "rat \<Rightarrow> book \<Rightarrow> bool" where
  "bookValid yl b \<longleftrightarrow>
     titleValid (title b) \<and> authorValid (author b) \<and> isbnValid (isbn b) \<and>
     publishedYearValid yl (publishedYear b) \<and> genreValid (genre b) \<and> priceValid (price b)"

definition wellFormed :: "book_model \<Rightarrow> bool" where
  \<comment> \<open>What holds of a collection that was filled through the schema alone: the unique
      indexes on \<open>_id\<close> and \<open>isbn\<close>, and every document passes the validators.\<close>
  "wellFormed m \<longleftrightarrow>
     distinct (map oid (docs m)) \<and> distinct (map isbn (docs m)) \<and>
     list_all (bookValid (yearLimit m)) (docs m)"

section \<open>The specification's wording, for comparison\<close>

text \<open>
  The constraints of the data model as the specification's table words them, read on a
  candidate record as it is submitted: the names of the fields that are absent or
  break their constraint, with \<open>currentYear\<close> the current calendar year.
\<close>

definition section3Violations :: "rat \<Rightarrow> book_data \<Rightarrow> string list" where
  "section3Violations currentYear d =
     (case title' d of
        Some t \<Rightarrow> if 1 \<le> length t \<and> length t \<le> 200 then [] else [''title'']
      | None \<Rightarrow> [''title'']) @
     (case author' d of
        Some a \<Rightarrow> if 2 \<le> length a then [] else [''author'']
      | None \<Rightarrow> [''author'']) @
     (case isbn' d of
        Some i \<Rightarrow>
          let digits = filter (\<lambda>c. c \<noteq> CHR ''-'') i in
          if list_all isDigit digits \<and> (length digits = 10 \<or> length digits = 13) then []
          else [''isbn'']
      | None \<Rightarrow> [''isbn'']) @
     (case publishedYear' d of
        Some y \<Rightarrow> if 1000 \<le> y \<and> y \<le> currentYear then [] else [''publishedYear'']
      | None \<Rightarrow> [''publishedYear'']) @
     (case genre' d of
        Some g \<Rightarrow> if g \<in> set genreValues then [] else [''genre'']
      | None \<Rightarrow> [''genre'']) @
     (case price' d of
        Some p \<Rightarrow> if 0 \<le> p then [] else [''price'']
      | None \<Rightarrow> [''price''])"

definition trimmed :: "book_data \<Rightarrow> book_data" where
  \<comment> \<open>The candidate after the setters of the four text paths.\<close>
  "trimmed d =
     d\<lparr> title' := map_option trim (title' d), author' := map_option trim (author' d),
        isbn' := map_option trim (isbn' d), genre' := map_option trim (genre' d) \<rparr>"

text \<open>
  The outcomes of the specification's error taxonomy and its status mapping: 201 on
  create, 200 on a successful read, update, delete or search, 404 on an absent result,
  400 on a validation error, a duplicate key or a malformed request, 500 on anything
  unanticipated.
\<close>

datatype outcome = Created | Succeeded | AbsentResult | Rejected | Unanticipated

definition specStatus :: "outcome \<Rightarrow> nat" where
  "specStatus out =
     (case out of
        Created \<Rightarrow> 201
      | Succeeded \<Rightarrow> 200
      | AbsentResult \<Rightarrow> 404
      | Rejected \<Rightarrow> 400
      | Unanticipated \<Rightarrow> 500)"

definition classify :: "service_error \<Rightarrow> outcome" where
  \<comment> \<open>A validation error and a duplicate key are rejections of the request; a cast
      error, a refused write and an unreachable store are "anything else".\<close>
  "classify e =
     (case e of
        Error msg None \<Rightarrow> Rejected
      | Error msg (Some (ValidationError fs)) \<Rightarrow> Rejected
      | Error msg (Some (DuplicateKey k)) \<Rightarrow> Rejected
      | Error msg (Some other) \<Rightarrow> Unanticipated)"

definition outcomeOf :: "bool \<Rightarrow> outcome \<Rightarrow> service_error + 'a option \<Rightarrow> outcome" where
  \<comment> \<open>The outcome of a request: \<open>malformed\<close> says that a required parameter is missing
      or mistyped, \<open>ok\<close> is the outcome of a result that is present.\<close>
  "outcomeOf malformed ok res =
     (if malformed then Rejected
      else case res of
        Inl e \<Rightarrow> classify e
      | Inr None \<Rightarrow> AbsentResult
      | Inr (Some x) \<Rightarrow> ok)"

definition writeStatus :: "outcome \<Rightarrow> nat" where
  \<comment> \<open>The mapping of the two handlers whose \<open>catch\<close> answers 400 whatever was thrown.\<close>
  "writeStatus out = (if out = Unanticipated then 400 else specStatus out)"

definition queryText :: "query_value \<Rightarrow> string" where
  \<comment> \<open>The text of \<open>req.query.q\<close> when it is a string; empty when the handler refuses it.\<close>
  "queryText q = (case q of Str s \<Rightarrow> s | _ \<Rightarrow> [])"

section \<open>Sample requests\<close>

definition mockingbird :: book_data where
  \<comment> \<open>The first create request of the testing guide.\<close>
  "mockingbird =
     \<lparr> title' = Some ''To Kill a Mockingbird'', author' = Some ''Harper Lee'',
       isbn' = Some ''9780061120084'', publishedYear' = Some 1960, genre' = Some ''Fiction'',
       price' = Some (1899 / 100), inStock' = Some True \<rparr>"

definition freshId :: string where
  "freshId = ''507f1f77bcf86cd799439014''"

definition priceUpdate :: update_data where
  \<comment> \<open>The update request of the testing guide, with a \<open>createdAt\<close> and an \<open>updatedAt\<close>
      of the client's added to the body.\<close>
  "priceUpdate =
     \<lparr> title' = None, author' = None, isbn' = None, publishedYear' = None, genre' = None,
       price' = Some (2499 / 100), inStock' = Some False, oid' = None, createdAt' = Some 1,
       updatedAt' = Some 2 \<rparr>"

definition asCandidate :: "book \<Rightarrow> book_data" where
  \<comment> \<open>A stored document read as a candidate record, to put the table's constraints to it.\<close>
  "asCandidate b =
     \<lparr> title' = Some (title b), author' = Some (author b), isbn' = Some (isbn b),
       publishedYear' = Some (publishedYear b), genre' = Some (genre b), price' = Some (price b),
       inStock' = Some (inStock b) \<rparr>"

definition paddedTitle :: book_data where
  \<comment> \<open>The sample request with a title of 200 letters and a trailing blank, and a blank
      before the genre.\<close>
  "paddedTitle =
     mockingbird\<lparr> title' := Some (replicate 200 (CHR ''a'') @ '' ''), genre' := Some '' Fiction'' \<rparr>"

definition invalidIsbn :: book_data where
  \<comment> \<open>The request "Test Invalid ISBN" of the testing guide.\<close>
  "invalidIsbn =
     \<lparr> title' = Some ''Test Book'', author' = Some ''Test Author'', isbn' = Some ''invalid-isbn'',
       publishedYear' = Some 2020, genre' = Some ''Fiction'', price' = Some (1099 / 100),
       inStock' = None \<rparr>"

definition mockingbirdStored :: book where
  \<comment> \<open>The document the sample request becomes when it is created at time 5000.\<close>
  "mockingbirdStored =
     \<lparr> oid = freshId, title = ''To Kill a Mockingbird'', author = ''Harper Lee'',
       isbn = ''9780061120084'', publishedYear = 1960, genre = ''Fiction'', price = 1899 / 100,
       inStock = True, createdAt = 5000, updatedAt = 5000 \<rparr>"

definition duplicateOfHobbit :: book_data where
  \<comment> \<open>A complete record whose isbn is the one of a stored book.\<close>
  "duplicateOfHobbit = mockingbird\<lparr> isbn' := Some ''9780547928227'' \<rparr>"

definition isbnExists :: service_error where
  "isbnExists = Error ''A book with this ISBN already exists'' None"

section \<open>Facts about the helpers\<close>

lemma validationErrors_new_present:
  assumes "validationErrors True y d = []"
  shows "title' d \<noteq> None \<and> author' d \<noteq> None \<and> isbn' d \<noteq> None \<and>
         publishedYear' d \<noteq> None \<and> genre' d \<noteq> None \<and> price' d \<noteq> None"
  using assms by (auto simp: validationErrors_def checkPath_def split: option.splits)

lemma length_newestFirst: "length (newestFirst bs) = length bs"
  by (simp add: newestFirst_def)

lemma set_newestFirst: "set (newestFirst bs) = set bs"
  by (simp add: newestFirst_def)

lemma newestFirst_sample:
  "newestFirst [cleanCode, briefHistory, theHobbit] = [theHobbit, briefHistory, cleanCode]"
  by code_simp

section \<open>The envelope of the list endpoints\<close>

text \<open>
  C10. In every successful response of a list-returning endpoint (all books, search,
  books of a genre, books in stock) the envelope carries the list of books as its
  data and the length of that list as its count.
\<close>

theorem list_envelope_count:
  "(success (BookController_getAllBooks m) \<longrightarrow>
      (\<exists>books. data (BookController_getAllBooks m) = Many books \<and>
         count (BookController_getAllBooks m) = Some (length books))) \<and>
   (success (BookController_searchBooks engine m q) \<longrightarrow>
      (\<exists>books. data (BookController_searchBooks engine m q) = Many books \<and>
         count (BookController_searchBooks engine m q) = Some (length books))) \<and>
   (success (BookController_getBooksByGenre m g) \<longrightarrow>
      (\<exists>books. data (BookController_getBooksByGenre m g) = Many books \<and>
         count (BookController_getBooksByGenre m g) = Some (length books))) \<and>
   (success (BookController_getInStockBooks m) \<longrightarrow>
      (\<exists>books. data (BookController_getInStockBooks m) = Many books \<and>
         count (BookController_getInStockBooks m) = Some (length books)))"
proof (intro conjI impI)
  assume "success (BookController_getAllBooks m)"
  then show "\<exists>books. data (BookController_getAllBooks m) = Many books \<and>
      count (BookController_getAllBooks m) = Some (length books)"
    by (auto simp: BookController_getAllBooks_def listed_def failureWith_def split: sum.splits)
next
  assume "success (BookController_searchBooks engine m q)"
  then show "\<exists>books. data (BookController_searchBooks engine m q) = Many books \<and>
      count (BookController_searchBooks engine m q) = Some (length books)"
    by (auto simp: BookController_searchBooks_def listed_def failureWith_def failure_def
        split: sum.splits query_value.splits list.splits)
next
  assume "success (BookController_getBooksByGenre m g)"
  then show "\<exists>books. data (BookController_getBooksByGenre m g) = Many books \<and>
      count (BookController_getBooksByGenre m g) = Some (length books)"
    by (auto simp: BookController_getBooksByGenre_def listed_def failureWith_def failure_def
        split: sum.splits if_splits)
next
  assume "success (BookController_getInStockBooks m)"
  then show "\<exists>books. data (BookController_getInStockBooks m) = Many books \<and>
      count (BookController_getInStockBooks m) = Some (length books)"
    by (auto simp: BookController_getInStockBooks_def listed_def failureWith_def split: sum.splits)
qed

lemma sample_getAllBooks:
  "BookController_getAllBooks sampleModel =
     listed ''Books retrieved successfully'' [theHobbit, briefHistory, cleanCode]"
  by code_simp

lemma sample_getInStockBooks:
  "BookController_getInStockBooks sampleModel =
     listed ''In-stock books retrieved successfully'' [theHobbit, cleanCode]"
  by code_simp

lemma sample_getBooksByGenre:
  "BookController_getBooksByGenre sampleModel (Some ''Fantasy'') =
     listed ''Books retrieved successfully'' [theHobbit]"
  by code_simp

lemma sample_searchBooks:
  "BookController_searchBooks noEngine sampleModel (Str ''hobbit'') =
     listed ''Search completed successfully'' [theHobbit]"
  by code_simp

theorem list_envelope_count_witness:
  "success (BookController_getAllBooks sampleModel) \<and>
   count (BookController_getAllBooks sampleModel) = Some 3 \<and>
   success (BookController_searchBooks noEngine sampleModel (Str ''hobbit'')) \<and>
   count (BookController_searchBooks noEngine sampleModel (Str ''hobbit'')) = Some 1 \<and>
   success (BookController_getBooksByGenre sampleModel (Some ''Fantasy'')) \<and>
   count (BookController_getBooksByGenre sampleModel (Some ''Fantasy'')) = Some 1 \<and>
   success (BookController_getInStockBooks sampleModel) \<and>
   count (BookController_getInStockBooks sampleModel) = Some 2"
  using list_envelope_count [of sampleModel noEngine "Str ''hobbit''" "Some ''Fantasy''"]
  by (simp add: sample_getAllBooks sample_searchBooks sample_getBooksByGenre
      sample_getInStockBooks listed_def)

section \<open>Route dispatch\<close>

lemma dispatchIn_skip:
  "\<not> routeMatches meth path r \<Longrightarrow> dispatchIn (r # table) meth path = dispatchIn table meth path"
  by (simp add: dispatchIn_def)

lemma dispatchIn_first:
  "routeMatches meth path (rm, pattern, h) \<Longrightarrow>
     dispatchIn ((rm, pattern, h) # table) meth path = Some h"
  by (simp add: dispatchIn_def)

lemma dispatchIn_earlier_wins:
  assumes "\<forall>r \<in> set pre. \<not> routeMatches meth path r"
    and "routeMatches meth path (rm, pattern, h)"
  shows "dispatchIn (pre @ (rm, pattern, h) # post) meth path = Some h"
  using assms by (induction pre) (simp_all add: dispatchIn_first dispatchIn_skip)

lemma id_route_first_swallows_search:
  "dispatchIn ((GET, [Param ''id''], GetBookById) # initializeRoutes) GET [''search'']
     = Some GetBookById"
  by (simp add: dispatchIn_first routeMatches_def)

text \<open>
  C9. A GET request for \<open>search\<close> or for \<open>stock/available\<close> below the collection path goes
  to the search handler and to the in-stock handler, never to the lookup by id. The
  pattern \<open>/:id\<close> does match the path \<open>search\<close>; the request is not taken for a lookup of
  the id "search" because the literal route is registered earlier: of the routes that
  match it, the literal one comes first. The path \<open>stock/available\<close> has two segments
  and is matched by its literal route alone.
\<close>

theorem literal_routes_before_id:
  "dispatch GET [''search''] = Some SearchBooks \<and>
   dispatch GET [''stock'', ''available''] = Some GetInStockBooks \<and>
   dispatch GET [''search''] \<noteq> Some GetBookById \<and>
   dispatch GET [''stock'', ''available''] \<noteq> Some GetBookById \<and>
   filter (routeMatches GET [''search'']) initializeRoutes =
     [(GET, [Lit ''search''], SearchBooks), (GET, [Param ''id''], GetBookById)] \<and>
   filter (routeMatches GET [''stock'', ''available'']) initializeRoutes =
     [(GET, [Lit ''stock'', Lit ''available''], GetInStockBooks)]"
  by code_simp

theorem literal_routes_before_id_witness:
  "dispatch GET [''search''] = Some SearchBooks \<and>
   dispatch GET [''stock'', ''available''] = Some GetInStockBooks"
  using literal_routes_before_id by simp

section \<open>Filtering by genre\<close>

lemma newestFirst_sorted: "sorted (map (\<lambda>b. - createdAt b) (newestFirst bs))"
  by (simp add: newestFirst_def)

lemma newestFirst_descending:
  assumes "i < j" and "j < length bs"
  shows "createdAt (newestFirst bs ! j) \<le> createdAt (newestFirst bs ! i)"
proof -
  have "(map (\<lambda>b. - createdAt b) (newestFirst bs)) ! i \<le> (map (\<lambda>b. - createdAt b) (newestFirst bs)) ! j"
    using assms newestFirst_sorted [of bs]
    by (intro sorted_nth_mono) (simp_all add: length_newestFirst)
  then show ?thesis
    using assms by (simp add: length_newestFirst)
qed

lemma genreValues_not_fantasy: "\<not> genreValid ''fantasy''"
  by code_simp

lemma trim_Fantasy: "trim ''Fantasy'' = ''Fantasy''" and trim_fantasy: "trim ''fantasy'' = ''fantasy''"
  by code_simp+

lemma wellFormed_sample: "wellFormed sampleModel"
  by code_simp

text \<open>
  C8. The genre filter compares for equality, without folding case: \<open>genre/Fantasy\<close>
  returns exactly the documents whose genre is "Fantasy", newest first, and
  \<open>genre/fantasy\<close> returns no document at all from a collection filled through the
  schema, whatever documents of genre "Fantasy" it holds. The value compared is the
  path parameter after the setter of the path, which removes surrounding white space
  and nothing else.
\<close>

theorem genre_filter_exact:
  assumes "connected m"
  shows "BookService_getBooksByGenre m g = Inr (newestFirst (filter (\<lambda>b. genre b = trim g) (docs m))) \<and>
         BookService_getBooksByGenre m ''Fantasy'' =
           Inr (newestFirst (filter (\<lambda>b. genre b = ''Fantasy'') (docs m))) \<and>
         (wellFormed m \<longrightarrow>
            BookService_getBooksByGenre m ''fantasy'' = Inr [] \<and>
            BookController_getBooksByGenre m (Some ''fantasy'') =
              listed ''Books retrieved successfully'' [])"
proof -
  have general: "BookService_getBooksByGenre m x = Inr (newestFirst (filter (\<lambda>b. genre b = trim x) (docs m)))" for x
    using assms by (simp add: BookService_getBooksByGenre_def findSorted_def)
  have none: "filter (\<lambda>b. genre b = ''fantasy'') (docs m) = []" if "wellFormed m"
  proof -
    have "genre b \<noteq> ''fantasy''" if "b \<in> set (docs m)" for b
    proof
      assume "genre b = ''fantasy''"
      moreover have "genreValid (genre b)"
        using \<open>wellFormed m\<close> \<open>b \<in> set (docs m)\<close>
        by (auto simp: wellFormed_def bookValid_def list_all_iff)
      ultimately show False using genreValues_not_fantasy by simp
    qed
    then show ?thesis by (simp add: filter_empty_conv)
  qed
  show ?thesis
    using general [of g] general [of "''Fantasy''"] general [of "''fantasy''"] none
    by (simp add: trim_Fantasy trim_fantasy BookController_getBooksByGenre_def falsy_def
        newestFirst_def)
qed

theorem genre_filter_exact_witness:
  "connected sampleModel \<and> wellFormed sampleModel \<and>
   BookService_getBooksByGenre sampleModel ''Fantasy'' = Inr [theHobbit] \<and>
   BookService_getBooksByGenre sampleModel ''fantasy'' = Inr []"
proof -
  have c: "connected sampleModel" by (simp add: sampleModel_def)
  have f: "newestFirst (filter (\<lambda>b. genre b = ''Fantasy'') (docs sampleModel)) = [theHobbit]"
    by code_simp
  show ?thesis
    using genre_filter_exact [OF c, of "''Fantasy''"] c wellFormed_sample f by (simp add: trim_Fantasy)
qed

section \<open>Looking up and deleting by id\<close>

lemma find_None_removeFirst: "find P xs = None \<Longrightarrow> removeFirst P xs = xs"
  by (induction xs) (auto split: if_splits)

lemma set_removeFirst: "set (removeFirst P xs) \<subseteq> set xs"
  by (induction xs) auto

lemma map_removeFirst_key:
  "map f (removeFirst (\<lambda>x. f x = k) xs) = removeFirst (\<lambda>y. y = k) (map f xs)"
  by (induction xs) auto

lemma removeFirst_eq_remove1: "removeFirst (\<lambda>y. y = k) ys = remove1 k ys"
  by (induction ys) auto

lemma distinct_map_removeFirst:
  "distinct (map f xs) \<Longrightarrow> distinct (map f (removeFirst P xs))"
  by (induction xs) (use set_removeFirst in \<open>fastforce split: if_splits\<close>)+

lemma removeFirst_key_gone:
  assumes "distinct (map f xs)"
  shows "k \<notin> set (map f (removeFirst (\<lambda>x. f x = k) xs))"
  using assms by (simp add: map_removeFirst_key removeFirst_eq_remove1)

lemma find_key_None_iff: "find (\<lambda>x. f x = k) xs = None \<longleftrightarrow> k \<notin> set (map f xs)"
  by (auto simp: find_None_iff)

lemma find_after_removeFirst:
  assumes "distinct (map f xs)"
  shows "find (\<lambda>x. f x = k) (removeFirst (\<lambda>x. f x = k) xs) = None"
  unfolding find_key_None_iff by (rule removeFirst_key_gone [OF assms])

lemma find_SomeD: "find P xs = Some x \<Longrightarrow> x \<in> set xs \<and> P x"
  by (induction xs) (auto split: if_splits)

lemma findByIdAndDelete_wellFormed:
  assumes "wellFormed m" and "findByIdAndDelete m i = Inr (r, m')"
  shows "wellFormed m'"
proof -
  have "docs m' = docs m \<or> (\<exists>k. docs m' = removeFirst (\<lambda>b. oid b = k) (docs m))"
    and "yearLimit m' = yearLimit m"
    using assms(2)
    by (auto simp: findByIdAndDelete_def split: option.splits if_splits)
  moreover have "list_all (bookValid y) (removeFirst P bs)" if "list_all (bookValid y) bs" for y P bs
    using that set_removeFirst [of P bs] by (auto simp: list_all_iff)
  ultimately show ?thesis
    using assms(1) by (auto simp: wellFormed_def distinct_map_removeFirst)
qed

text \<open>
  C6, as the code has it. For every well-formed id (24 hexadecimal characters) and a reachable
  store, delete removes the document with that id and answers 200 with the document
  as it was; when no document has the id it answers 404 and leaves the collection as
  it is. So a second delete of the same id answers 404 and leaves the collection as
  the first delete left it. An id in the wrong format is not answered as an absent
  result: the store client raises a cast error and the answer is 500, with the
  collection unchanged.
\<close>

theorem delete_by_id:
  "(i \<noteq> [] \<and> castObjectId i = None \<longrightarrow>
      BookController_deleteBook m (Some i) =
        (failureWith 500 (Literal ''Failed to delete book'')
           (Error ''Failed to delete book: '' (Some (CastError ''_id''))), m)) \<and>
   (connected m \<and> castObjectId i = Some k \<and> find (\<lambda>b. oid b = k) (docs m) = None \<longrightarrow>
      BookController_deleteBook m (Some i) = (failure 404 ''Book not found'', m)) \<and>
   (connected m \<and> castObjectId i = Some k \<and> find (\<lambda>b. oid b = k) (docs m) = Some b \<and>
    distinct (map oid (docs m)) \<longrightarrow>
      (let m' = m\<lparr>docs := removeFirst (\<lambda>b. oid b = k) (docs m)\<rparr> in
       BookController_deleteBook m (Some i) = (found 200 ''Book deleted successfully'' b, m') \<and>
       b \<in> set (docs m) \<and> b \<notin> set (docs m') \<and>
       BookController_deleteBook m' (Some i) = (failure 404 ''Book not found'', m')))"
proof (intro conjI impI)
  assume "i \<noteq> [] \<and> castObjectId i = None"
  then show "BookController_deleteBook m (Some i) =
        (failureWith 500 (Literal ''Failed to delete book'')
           (Error ''Failed to delete book: '' (Some (CastError ''_id''))), m)"
    by (simp add: BookController_deleteBook_def BookService_deleteBook_def findByIdAndDelete_def
        falsy_def)
next
  assume "connected m \<and> castObjectId i = Some k \<and> find (\<lambda>b. oid b = k) (docs m) = None"
  moreover from this have "i \<noteq> []" by (auto simp: castObjectId_def)
  ultimately show "BookController_deleteBook m (Some i) = (failure 404 ''Book not found'', m)"
    by (simp add: BookController_deleteBook_def BookService_deleteBook_def findByIdAndDelete_def
        falsy_def)
next
  assume a: "connected m \<and> castObjectId i = Some k \<and> find (\<lambda>b. oid b = k) (docs m) = Some b \<and>
    distinct (map oid (docs m))"
  then have ne: "i \<noteq> []" by (auto simp: castObjectId_def)
  define m' where "m' = m\<lparr>docs := removeFirst (\<lambda>b. oid b = k) (docs m)\<rparr>"
  have first: "BookController_deleteBook m (Some i) = (found 200 ''Book deleted successfully'' b, m')"
    using a ne
    by (simp add: BookController_deleteBook_def BookService_deleteBook_def findByIdAndDelete_def
        falsy_def m'_def)
  have b: "b \<in> set (docs m)" "oid b = k"
    using a find_SomeD [of "\<lambda>b. oid b = k" "docs m" b] by simp_all
  have gone: "find (\<lambda>b. oid b = k) (docs m') = None"
    using a by (simp add: m'_def find_after_removeFirst)
  then have notin: "b \<notin> set (docs m')"
    using b(2) by (auto simp: find_None_iff)
  have second: "BookController_deleteBook m' (Some i) = (failure 404 ''Book not found'', m')"
    using a ne gone
    by (simp add: BookController_deleteBook_def BookService_deleteBook_def findByIdAndDelete_def
        falsy_def m'_def)
  show "let m' = m\<lparr>docs := removeFirst (\<lambda>b. oid b = k) (docs m)\<rparr> in
       BookController_deleteBook m (Some i) = (found 200 ''Book deleted successfully'' b, m') \<and>
       b \<in> set (docs m) \<and> b \<notin> set (docs m') \<and>
       BookController_deleteBook m' (Some i) = (failure 404 ''Book not found'', m')"
    using first b(1) notin second by (simp add: m'_def Let_def)
qed

lemma sample_delete_hobbit:
  "castObjectId ''507f1f77bcf86cd799439011'' = Some ''507f1f77bcf86cd799439011'' \<and>
   find (\<lambda>b. oid b = ''507f1f77bcf86cd799439011'') (docs sampleModel) = Some theHobbit \<and>
   distinct (map oid (docs sampleModel)) \<and> connected sampleModel \<and>
   removeFirst (\<lambda>b. oid b = ''507f1f77bcf86cd799439011'') (docs sampleModel) = [cleanCode, briefHistory]"
  by code_simp

theorem delete_by_id_witness:
  "BookController_deleteBook sampleModel (Some ''507f1f77bcf86cd799439011'') =
     (found 200 ''Book deleted successfully'' theHobbit, sampleModel\<lparr>docs := [cleanCode, briefHistory]\<rparr>) \<and>
   BookController_deleteBook (sampleModel\<lparr>docs := [cleanCode, briefHistory]\<rparr>)
       (Some ''507f1f77bcf86cd799439011'') =
     (failure 404 ''Book not found'', sampleModel\<lparr>docs := [cleanCode, briefHistory]\<rparr>)"
  using delete_by_id [of "''507f1f77bcf86cd799439011''" sampleModel "''507f1f77bcf86cd799439011''" theHobbit]
    sample_delete_hobbit
  by (simp add: Let_def)

theorem delete_malformed_id_counterexample:
  "''abc'' \<notin> set (map oid (docs sampleModel)) \<and>
   status (fst (BookController_deleteBook sampleModel (Some ''abc''))) = 500 \<and>
   snd (BookController_deleteBook sampleModel (Some ''abc'')) = sampleModel"
  by code_simp

section \<open>Looking up an id in the wrong format\<close>

lemma castObjectId_nonempty: "castObjectId i = Some k \<Longrightarrow> i \<noteq> []"
  by (auto simp: castObjectId_def)

lemma getBookById_absent:
  assumes "connected m" and "castObjectId i = Some k" and "find (\<lambda>b. oid b = k) (docs m) = None"
  shows "BookController_getBookById m (Some i) = failure 404 ''Book not found''"
  using assms castObjectId_nonempty [of i k]
  by (simp add: BookController_getBookById_def BookService_getBookById_def findById_def falsy_def)

lemma getBookById_present:
  assumes "connected m" and "castObjectId i = Some k" and "find (\<lambda>b. oid b = k) (docs m) = Some b"
  shows "BookController_getBookById m (Some i) = found 200 ''Book retrieved successfully'' b"
  using assms castObjectId_nonempty [of i k]
  by (simp add: BookController_getBookById_def BookService_getBookById_def findById_def falsy_def)

text \<open>
  C7, as the code has it. An id in the wrong format is not treated as "not found". The store
  client rejects it with a cast error, the service throws in turn and the handler
  answers 500: the client observes the error outcome, whatever the collection holds
  and whether or not the store can be reached. Only a well-formed id that no document
  has is answered 404.
\<close>

theorem getBookById_malformed_id:
  assumes "i \<noteq> []" and "castObjectId i = None"
  shows "BookService_getBookById m i = Inl (Error ''Failed to fetch book: '' (Some (CastError ''_id''))) \<and>
         BookController_getBookById m (Some i) =
           failureWith 500 (Literal ''Failed to retrieve book'')
             (Error ''Failed to fetch book: '' (Some (CastError ''_id''))) \<and>
         status (BookController_getBookById m (Some i)) = 500"
  using assms
  by (simp add: BookController_getBookById_def BookService_getBookById_def findById_def falsy_def
      failureWith_def)

theorem getBookById_malformed_id_witness:
  "''not-an-object-id'' \<noteq> [] \<and> castObjectId ''not-an-object-id'' = None \<and>
   status (BookController_getBookById sampleModel (Some ''not-an-object-id'')) = 500"
proof -
  have a: "''not-an-object-id'' \<noteq> []" by simp
  have b: "castObjectId ''not-an-object-id'' = None" by code_simp
  show ?thesis
    using getBookById_malformed_id [OF a b, of sampleModel] a b by (simp add: failureWith_def)
qed

theorem getBookById_malformed_id_counterexample:
  "castObjectId ''abc'' = None \<and>
   status (BookController_getBookById sampleModel (Some ''abc'')) \<noteq> 404 \<and>
   status (BookController_getBookById sampleModel (Some ''abc'')) = 500"
  by code_simp

section \<open>From outcome to status\<close>

lemma status_failure: "status (failure n msg) = n"
  by (simp add: failure_def)

lemma status_failureWith: "status (failureWith n msg e) = n"
  by (simp add: failureWith_def)

lemma status_found: "status (found n msg b) = n"
  by (simp add: found_def)

lemma status_listed: "status (listed msg bs) = 200"
  by (simp add: listed_def)

lemmas status_simps = status_failure status_failureWith status_found status_listed

lemma classify_cases:
  "classify e = Rejected \<or> classify e = Unanticipated"
  by (cases e) (auto simp: classify_def split: option.splits store_error.splits)

lemma status_createBook:
  "status (fst (BookController_createBook m now newId d)) =
     writeStatus (outcomeOf (falsy (title' d) \<or> falsy (author' d) \<or> falsy (isbn' d)) Created
       (map_sum id Some (BookService_createBook m now newId d)))"
proof (cases "BookService_createBook m now newId d")
  case (Inl e)
  then show ?thesis
    using classify_cases [of e]
    by (auto simp: BookController_createBook_def outcomeOf_def writeStatus_def specStatus_def
        status_simps)
next
  case (Inr r)
  then show ?thesis
    by (cases r)
      (auto simp: BookController_createBook_def outcomeOf_def writeStatus_def specStatus_def
        status_simps)
qed

lemma status_updateBook:
  "status (fst (BookController_updateBook m now i u)) =
     writeStatus (outcomeOf (falsy i) Succeeded
       (map_sum id fst (BookService_updateBook m now (the i) (stripImmutable u))))"
proof (cases "BookService_updateBook m now (the i) (stripImmutable u)")
  case (Inl e)
  then show ?thesis
    using classify_cases [of e]
    by (auto simp: BookController_updateBook_def outcomeOf_def writeStatus_def specStatus_def
        status_simps)
next
  case (Inr r)
  then show ?thesis
    by (cases r; cases "fst r")
      (auto simp: BookController_updateBook_def outcomeOf_def writeStatus_def specStatus_def
        status_simps)
qed

lemma status_deleteBook:
  "status (fst (BookController_deleteBook m i)) =
     specStatus (outcomeOf (falsy i) Succeeded (map_sum id fst (BookService_deleteBook m (the i))))"
proof (cases "BookService_deleteBook m (the i)")
  case (Inl e)
  then have "classify e = Unanticipated"
    by (auto simp: BookService_deleteBook_def classify_def findByIdAndDelete_def
        split: sum.splits option.splits if_splits)
  with Inl show ?thesis
    by (auto simp: BookController_deleteBook_def outcomeOf_def specStatus_def status_simps)
next
  case (Inr r)
  then show ?thesis
    by (cases r; cases "fst r")
      (auto simp: BookController_deleteBook_def outcomeOf_def specStatus_def status_simps)
qed

lemma status_getBookById:
  "status (BookController_getBookById m i) =
     specStatus (outcomeOf (falsy i) Succeeded (BookService_getBookById m (the i)))"
proof (cases "BookService_getBookById m (the i)")
  case (Inl e)
  then have "classify e = Unanticipated"
    by (auto simp: BookService_getBookById_def classify_def findById_def
        split: sum.splits option.splits if_splits)
  with Inl show ?thesis
    by (auto simp: BookController_getBookById_def outcomeOf_def specStatus_def status_simps)
next
  case (Inr r)
  then show ?thesis
    by (cases r)
      (auto simp: BookController_getBookById_def outcomeOf_def specStatus_def status_simps)
qed

lemma findSorted_error: "findSorted m P = Inl e \<Longrightarrow> e = StoreUnavailable"
  by (auto simp: findSorted_def split: if_splits)

lemma status_getAllBooks:
  "status (BookController_getAllBooks m) =
     specStatus (outcomeOf False Succeeded (map_sum id Some (BookService_getAllBooks m)))"
  by (auto simp: BookController_getAllBooks_def BookService_getAllBooks_def outcomeOf_def
      specStatus_def classify_def status_simps split: sum.splits dest!: findSorted_error)

lemma status_getInStockBooks:
  "status (BookController_getInStockBooks m) =
     specStatus (outcomeOf False Succeeded (map_sum id Some (BookService_getInStockBooks m)))"
  by (auto simp: BookController_getInStockBooks_def BookService_getInStockBooks_def outcomeOf_def
      specStatus_def classify_def status_simps split: sum.splits dest!: findSorted_error)

lemma status_getBooksByGenre:
  "status (BookController_getBooksByGenre m g) =
     specStatus (outcomeOf (falsy g) Succeeded
       (map_sum id Some (BookService_getBooksByGenre m (the g))))"
  by (auto simp: BookController_getBooksByGenre_def BookService_getBooksByGenre_def outcomeOf_def
      specStatus_def classify_def status_simps split: sum.splits dest!: findSorted_error)

lemma findRegex_error: "findRegex engine m q = Inl e \<Longrightarrow> e = StoreUnavailable \<or> e = CastError ''$regex''"
  by (auto simp: findRegex_def split: if_splits option.splits)

lemma status_searchBooks:
  "status (BookController_searchBooks engine m q) =
     specStatus (outcomeOf (queryText q = []) Succeeded
       (map_sum id Some (BookService_searchBooks engine m (queryText q))))"
proof (cases "queryText q = []")
  case True
  then show ?thesis
    by (auto simp: BookController_searchBooks_def outcomeOf_def specStatus_def queryText_def
        status_simps split: query_value.splits list.splits)
next
  case False
  then obtain c cs where q: "q = Str (c # cs)"
    by (cases q) (auto simp: queryText_def neq_Nil_conv)
  show ?thesis
    unfolding q
    by (auto simp: BookController_searchBooks_def BookService_searchBooks_def outcomeOf_def
        specStatus_def classify_def queryText_def status_simps split: sum.splits
        dest!: findRegex_error)
qed

text \<open>
  C3, as the code has it. The handlers map the outcome of a request to the status as the
  specification says (201 on create, 200 on a successful read, update, delete or
  search, 404 on an absent result, 400 on a validation error, a duplicate key or a
  malformed request, 500 on an unanticipated failure), with one difference: the
  \<open>catch\<close> of create and of update answers 400 for whatever the service throws, so an
  unanticipated failure during create or update (an unreachable store, an id the store
  client cannot cast) yields 400, not 500.
\<close>

theorem status_mapping:
  "status (fst (BookController_createBook m now newId d)) =
     writeStatus (outcomeOf (falsy (title' d) \<or> falsy (author' d) \<or> falsy (isbn' d)) Created
       (map_sum id Some (BookService_createBook m now newId d))) \<and>
   status (fst (BookController_updateBook m now i u)) =
     writeStatus (outcomeOf (falsy i) Succeeded
       (map_sum id fst (BookService_updateBook m now (the i) (stripImmutable u)))) \<and>
   status (BookController_getAllBooks m) =
     specStatus (outcomeOf False Succeeded (map_sum id Some (BookService_getAllBooks m))) \<and>
   status (BookController_getBookById m i) =
     specStatus (outcomeOf (falsy i) Succeeded (BookService_getBookById m (the i))) \<and>
   status (fst (BookController_deleteBook m i)) =
     specStatus (outcomeOf (falsy i) Succeeded (map_sum id fst (BookService_deleteBook m (the i)))) \<and>
   status (BookController_searchBooks engine m q) =
     specStatus (outcomeOf (queryText q = []) Succeeded
       (map_sum id Some (BookService_searchBooks engine m (queryText q)))) \<and>
   status (BookController_getBooksByGenre m g) =
     specStatus (outcomeOf (falsy g) Succeeded
       (map_sum id Some (BookService_getBooksByGenre m (the g)))) \<and>
   status (BookController_getInStockBooks m) =
     specStatus (outcomeOf False Succeeded (map_sum id Some (BookService_getInStockBooks m))) \<and>
   writeStatus Unanticipated = 400 \<and> specStatus Unanticipated = 500"
  using status_createBook [of m now newId d] status_updateBook [of m now i u]
    status_getAllBooks [of m] status_getBookById [of m i] status_deleteBook [of m i]
    status_searchBooks [of engine m q] status_getBooksByGenre [of m g]
    status_getInStockBooks [of m]
  by (simp add: writeStatus_def specStatus_def)

lemma sample_statuses:
  "status (fst (BookController_createBook sampleModel 5000 freshId mockingbird)) = 201 \<and>
   status (fst (BookController_createBook (sampleModel\<lparr>connected := False\<rparr>) 5000 freshId
     mockingbird)) = 400 \<and>
   status (fst (BookController_updateBook (sampleModel\<lparr>connected := False\<rparr>) 5000
     (Some ''507f1f77bcf86cd799439011'') priceUpdate)) = 400 \<and>
   status (BookController_getAllBooks (sampleModel\<lparr>connected := False\<rparr>)) = 500 \<and>
   status (BookController_getBookById sampleModel (Some freshId)) = 404"
  by code_simp

theorem status_mapping_witness:
  "writeStatus (outcomeOf (falsy (title' mockingbird) \<or> falsy (author' mockingbird) \<or>
       falsy (isbn' mockingbird)) Created
     (map_sum id Some (BookService_createBook sampleModel 5000 freshId mockingbird))) = 201 \<and>
   writeStatus (outcomeOf (falsy (title' mockingbird) \<or> falsy (author' mockingbird) \<or>
       falsy (isbn' mockingbird)) Created
     (map_sum id Some (BookService_createBook (sampleModel\<lparr>connected := False\<rparr>) 5000 freshId
        mockingbird))) = 400 \<and>
   specStatus (outcomeOf False Succeeded
     (map_sum id Some (BookService_getAllBooks (sampleModel\<lparr>connected := False\<rparr>)))) = 500"
  using status_mapping [of sampleModel 5000 freshId mockingbird]
    status_mapping [of "sampleModel\<lparr>connected := False\<rparr>" 5000 freshId mockingbird]
    sample_statuses
  by simp

theorem create_store_failure_counterexample:
  "BookService_createBook (sampleModel\<lparr>connected := False\<rparr>) 5000 freshId mockingbird =
     Inl (Error ''Failed to create book: '' (Some StoreUnavailable)) \<and>
   classify (Error ''Failed to create book: '' (Some StoreUnavailable)) = Unanticipated \<and>
   status (fst (BookController_createBook (sampleModel\<lparr>connected := False\<rparr>) 5000 freshId
     mockingbird)) = 400 \<and>
   specStatus Unanticipated = 500"
  by code_simp

section \<open>Validation before a create\<close>

lemma genreValues_nonempty: "[] \<notin> set genreValues"
  by (simp add: genreValues_def)

lemma title_violation:
  "checkPath True ''title'' (map_option trim t) titleValid =
     (case map_option trim t of
        Some v \<Rightarrow> if 1 \<le> length v \<and> length v \<le> 200 then [] else [''title'']
      | None \<Rightarrow> [''title''])"
  by (cases t) (auto simp: checkPath_def titleValid_def)

lemma author_violation:
  "checkPath True ''author'' (map_option trim a) authorValid =
     (case map_option trim a of
        Some v \<Rightarrow> if 2 \<le> length v then [] else [''author'']
      | None \<Rightarrow> [''author''])"
  by (cases a) (auto simp: checkPath_def authorValid_def)

lemma isbn_violation:
  "checkPath True ''isbn'' (map_option trim i) isbnValid =
     (case map_option trim i of
        Some v \<Rightarrow>
          let digits = filter (\<lambda>c. c \<noteq> CHR ''-'') v in
          if list_all isDigit digits \<and> (length digits = 10 \<or> length digits = 13) then []
          else [''isbn'']
      | None \<Rightarrow> [''isbn''])"
  by (cases i) (auto simp: checkPath_def isbnValid_def isbnValidator_def Let_def)

lemma year_violation:
  "checkPath True ''publishedYear'' y (publishedYearValid yl) =
     (case y of
        Some v \<Rightarrow> if 1000 \<le> v \<and> v \<le> yl then [] else [''publishedYear'']
      | None \<Rightarrow> [''publishedYear''])"
  by (cases y) (auto simp: checkPath_def publishedYearValid_def)

lemma genre_violation:
  "checkPath True ''genre'' (map_option trim g) genreValid =
     (case map_option trim g of
        Some v \<Rightarrow> if v \<in> set genreValues then [] else [''genre'']
      | None \<Rightarrow> [''genre''])"
  using genreValues_nonempty by (cases g) (auto simp: checkPath_def genreValid_def)

lemma price_violation:
  "checkPath True ''price'' p priceValid =
     (case p of
        Some v \<Rightarrow> if 0 \<le> v then [] else [''price'']
      | None \<Rightarrow> [''price''])"
  by (cases p) (auto simp: checkPath_def priceValid_def)

lemma validationErrors_section3:
  "validationErrors True yl d = section3Violations yl (trimmed d)"
  unfolding validationErrors_def section3Violations_def
  by (simp only: title_violation author_violation isbn_violation year_violation genre_violation
      price_violation) (simp add: trimmed_def)

lemma year_violation_mono:
  assumes "yl \<le> (cy::rat)"
  shows "set (case y of
        Some v \<Rightarrow> if 1000 \<le> v \<and> v \<le> cy then [] else [''publishedYear'']
      | None \<Rightarrow> [''publishedYear'']) \<subseteq>
     set (case y of
        Some v \<Rightarrow> if 1000 \<le> v \<and> v \<le> yl then [] else [''publishedYear'']
      | None \<Rightarrow> [''publishedYear''])"
  using assms by (cases y) auto

lemma section3Violations_mono:
  assumes "yl \<le> (cy::rat)"
  shows "set (section3Violations cy c) \<subseteq> set (section3Violations yl c)"
  unfolding section3Violations_def set_append
  using year_violation_mono [OF assms, of "publishedYear' c"] by blast

lemma save_Inr:
  assumes "save m now newId d = Inr (b, m')"
  shows "validationErrors True (yearLimit m) d = [] \<and> connected m \<and>
         newId \<notin> set (map oid (docs m)) \<and> trim (the (isbn' d)) \<notin> set (map isbn (docs m)) \<and>
         b = \<lparr> oid = newId, title = trim (the (title' d)), author = trim (the (author' d)),
               isbn = trim (the (isbn' d)), publishedYear = the (publishedYear' d),
               genre = trim (the (genre' d)), price = the (price' d),
               inStock = (case inStock' d of None \<Rightarrow> True | Some s \<Rightarrow> s),
               createdAt = now, updatedAt = now \<rparr> \<and>
         m' = m\<lparr>docs := docs m @ [b]\<rparr>"
  using assms by (auto simp: save_def Let_def split: if_splits)

lemma save_Inl_unchanged:
  "validationErrors True (yearLimit m) d \<noteq> [] \<Longrightarrow>
     save m now newId d = Inl (ValidationError (validationErrors True (yearLimit m) d))"
  by (simp add: save_def Let_def)

lemma createBook_Inr_iff:
  "BookService_createBook m now newId d = Inr r \<longleftrightarrow> save m now newId d = Inr r"
  by (auto simp: BookService_createBook_def split: sum.splits if_splits)

lemma createBook_controller_failure:
  "status (fst (BookController_createBook m now newId d)) \<noteq> 201 \<Longrightarrow>
     snd (BookController_createBook m now newId d) = m \<and>
     status (fst (BookController_createBook m now newId d)) = 400"
  by (auto simp: BookController_createBook_def failure_def failureWith_def found_def
      split: sum.splits if_splits)


text \<open>
  C1, as the code has it. The constraints of the data model are put to the candidate after the
  setters of the schema have removed the white space around title, author, isbn and
  genre. If a required field of that record is absent or breaks its constraint (title
  of 1 to 200 characters, author of at least 2, isbn of digits only once the hyphens
  are removed and 10 or 13 of them, publishedYear between 1000 and the current year,
  genre one of the eleven values, price not negative), create fails: the service
  throws the validation error that names every such field, the handler answers 400
  and the collection is unchanged. A record that is accepted satisfies all of them,
  is stored with its text fields trimmed and with inStock true when the request left
  it out. The year the schema compares with was read from the clock when the schema
  was built; it is not later than the current year.
\<close>

theorem create_validates:
  assumes "yearLimit m \<le> currentYear"
  shows
   "(section3Violations currentYear (trimmed d) \<noteq> [] \<longrightarrow>
       BookService_createBook m now newId d =
         Inl (Error ''Failed to create book: ''
           (Some (ValidationError (validationErrors True (yearLimit m) d)))) \<and>
       set (section3Violations currentYear (trimmed d)) \<subseteq>
         set (validationErrors True (yearLimit m) d) \<and>
       status (fst (BookController_createBook m now newId d)) = 400 \<and>
       snd (BookController_createBook m now newId d) = m) \<and>
    (BookService_createBook m now newId d = Inr (b, m') \<longrightarrow>
       section3Violations currentYear (trimmed d) = [] \<and>
       section3Violations currentYear (asCandidate b) = [] \<and>
       asCandidate b =
         (trimmed d)\<lparr>inStock' := Some (case inStock' d of None \<Rightarrow> True | Some s \<Rightarrow> s)\<rparr> \<and>
       oid b = newId \<and> createdAt b = now \<and> updatedAt b = now \<and>
       docs m' = docs m @ [b])"
proof (intro conjI impI)
  have sub: "set (section3Violations currentYear (trimmed d)) \<subseteq>
      set (validationErrors True (yearLimit m) d)"
    using section3Violations_mono [OF assms, of "trimmed d"]
    by (simp only: validationErrors_section3)
  {
    assume viol: "section3Violations currentYear (trimmed d) \<noteq> []"
    then have errs: "validationErrors True (yearLimit m) d \<noteq> []"
      using sub by (cases "section3Violations currentYear (trimmed d)") auto
    show svc: "BookService_createBook m now newId d =
         Inl (Error ''Failed to create book: ''
           (Some (ValidationError (validationErrors True (yearLimit m) d))))"
      by (simp add: BookService_createBook_def save_Inl_unchanged [OF errs] code_def)
    show "set (section3Violations currentYear (trimmed d)) \<subseteq>
         set (validationErrors True (yearLimit m) d)"
      by (rule sub)
    have "status (fst (BookController_createBook m now newId d)) \<noteq> 201"
      using svc by (simp add: BookController_createBook_def failure_def failureWith_def)
    then show "status (fst (BookController_createBook m now newId d)) = 400"
      and "snd (BookController_createBook m now newId d) = m"
      using createBook_controller_failure [of m now newId d] by simp_all
  }
  {
    assume "BookService_createBook m now newId d = Inr (b, m')"
    then have sv: "save m now newId d = Inr (b, m')"
      by (simp only: createBook_Inr_iff)
    note facts = save_Inr [OF sv]
    from facts have ok: "validationErrors True (yearLimit m) d = []" by simp
    show none: "section3Violations currentYear (trimmed d) = []"
      using sub ok by simp
    from validationErrors_new_present [OF ok]
    obtain t a i y g p where d: "title' d = Some t" "author' d = Some a" "isbn' d = Some i"
        "publishedYear' d = Some y" "genre' d = Some g" "price' d = Some p"
      by auto
    have b: "b = \<lparr> oid = newId, title = trim t, author = trim a, isbn = trim i,
        publishedYear = y, genre = trim g, price = p,
        inStock = (case inStock' d of None \<Rightarrow> True | Some s \<Rightarrow> s),
        createdAt = now, updatedAt = now \<rparr>"
      using facts d by simp
    show cand: "asCandidate b =
         (trimmed d)\<lparr>inStock' := Some (case inStock' d of None \<Rightarrow> True | Some s \<Rightarrow> s)\<rparr>"
      by (simp add: b asCandidate_def trimmed_def d)
    show "section3Violations currentYear (asCandidate b) = []"
      using none unfolding cand by (simp add: section3Violations_def)
    show "oid b = newId" "createdAt b = now" "updatedAt b = now"
      by (simp_all add: b)
    show "docs m' = docs m @ [b]"
      using facts by simp
  }
qed

lemma sample_create:
  "section3Violations 2026 (trimmed invalidIsbn) = [''isbn''] \<and>
   validationErrors True (yearLimit sampleModel) invalidIsbn = [''isbn''] \<and>
   BookService_createBook sampleModel 5000 freshId mockingbird =
     Inr (mockingbirdStored, sampleModel\<lparr>docs := docs sampleModel @ [mockingbirdStored]\<rparr>)"
  by code_simp

theorem create_validates_witness:
  "yearLimit sampleModel \<le> 2026 \<and>
   section3Violations 2026 (trimmed invalidIsbn) \<noteq> [] \<and>
   BookService_createBook sampleModel 5000 freshId invalidIsbn =
     Inl (Error ''Failed to create book: '' (Some (ValidationError [''isbn'']))) \<and>
   snd (BookController_createBook sampleModel 5000 freshId invalidIsbn) = sampleModel \<and>
   BookService_createBook sampleModel 5000 freshId mockingbird =
     Inr (mockingbirdStored, sampleModel\<lparr>docs := docs sampleModel @ [mockingbirdStored]\<rparr>) \<and>
   section3Violations 2026 (asCandidate mockingbirdStored) = []"
proof -
  have y: "yearLimit sampleModel \<le> 2026" by (simp add: sampleModel_def)
  have viol: "section3Violations 2026 (trimmed invalidIsbn) \<noteq> []"
    using sample_create by simp
  have rejected:
    "BookService_createBook sampleModel 5000 freshId invalidIsbn =
       Inl (Error ''Failed to create book: '' (Some (ValidationError [''isbn''])))"
    "snd (BookController_createBook sampleModel 5000 freshId invalidIsbn) = sampleModel"
    using create_validates [OF y, of invalidIsbn 5000 freshId] viol sample_create by simp_all
  have accepted: "section3Violations 2026 (asCandidate mockingbirdStored) = []"
    using create_validates [OF y, of mockingbird 5000 freshId mockingbirdStored
        "sampleModel\<lparr>docs := docs sampleModel @ [mockingbirdStored]\<rparr>"] sample_create
    by blast
  show ?thesis
    using y viol rejected accepted sample_create by simp
qed

theorem create_padded_fields_counterexample:
  "section3Violations 2025 paddedTitle = [''title'', ''genre''] \<and>
   status (fst (BookController_createBook sampleModel 5000 freshId paddedTitle)) = 201 \<and>
   length (docs (snd (BookController_createBook sampleModel 5000 freshId paddedTitle))) =
     Suc (length (docs sampleModel))"
  by code_simp

section \<open>A second record with a stored isbn\<close>

lemma trim_Nil: "trim [] = []"
  by (simp add: trim_def)

lemma checkPath_empty: "checkPath isNew name v ok = [] \<Longrightarrow> v = Some x \<Longrightarrow> ok x"
  by (auto simp: checkPath_def split: if_splits)

lemma validationErrors_not_falsy:
  assumes "validationErrors True yl d = []"
  shows "\<not> falsy (title' d) \<and> \<not> falsy (author' d) \<and> \<not> falsy (isbn' d)"
proof -
  from validationErrors_new_present [OF assms]
  obtain t a i where d: "title' d = Some t" "author' d = Some a" "isbn' d = Some i"
    by auto
  from assms have "titleValid (trim t)" "authorValid (trim a)" "isbnValid (trim i)"
    by (auto simp: validationErrors_def d dest: checkPath_empty)
  then have "t \<noteq> []" "a \<noteq> []" "i \<noteq> []"
    by (auto simp: titleValid_def authorValid_def isbnValid_def trim_Nil)
  then show ?thesis by (simp add: falsy_def d)
qed

lemma save_duplicate_isbn:
  assumes "isbn' d = Some s" and "trim s \<in> set (map isbn (docs m))"
  shows "save m now newId d = Inl (ValidationError (validationErrors True (yearLimit m) d)) \<or>
         save m now newId d = Inl StoreUnavailable \<or>
         save m now newId d = Inl (DuplicateKey ''_id'') \<or>
         save m now newId d = Inl (DuplicateKey ''isbn'')"
  using assms by (simp add: save_def Let_def)

lemma save_duplicate_valid:
  assumes "isbn' d = Some s" and "trim s \<in> set (map isbn (docs m))"
    and "validationErrors True (yearLimit m) d = []" and "connected m"
  shows "\<exists>key. save m now newId d = Inl (DuplicateKey key)"
  using assms by (simp add: save_def Let_def)

lemma dropWhile_none: "\<forall>x \<in> set xs. \<not> P x \<Longrightarrow> dropWhile P xs = xs"
  by (cases xs) auto

lemma trim_no_space:
  assumes "\<forall>c \<in> set s. \<not> isSpace c"
  shows "trim s = s"
proof -
  have "dropWhile isSpace s = s"
    using assms by (rule dropWhile_none)
  moreover have "dropWhile isSpace (rev s) = rev s"
    using assms by (intro dropWhile_none) simp
  ultimately show ?thesis by (simp add: trim_def)
qed

lemma isbnValid_no_space:
  assumes "isbnValid s"
  shows "\<forall>c \<in> set s. \<not> isSpace c"
proof
  fix c assume c: "c \<in> set s"
  show "\<not> isSpace c"
  proof (cases "c = CHR ''-''")
    case True
    then show ?thesis by (simp add: isSpace_def)
  next
    case False
    with c assms have "isDigit c"
      by (auto simp: isbnValid_def isbnValidator_def Let_def list_all_iff)
    then show ?thesis by (auto simp: isDigit_def isSpace_def)
  qed
qed

lemma stored_isbn_trimmed:
  assumes "wellFormed m" and "s \<in> set (map isbn (docs m))"
  shows "trim s = s"
proof -
  from assms(2) obtain b where "b \<in> set (docs m)" "isbn b = s" by auto
  with assms(1) have "isbnValid s"
    by (auto simp: wellFormed_def bookValid_def list_all_iff)
  then show ?thesis
    by (intro trim_no_space isbnValid_no_space)
qed

text \<open>
  C2. If create is called with a record whose isbn is the isbn of a stored document,
  no second record is created: the handler answers 400 and the collection is
  unchanged. For a record that reaches the insert (it passes the validation and the
  store can be reached) the insert fails on the unique index: the store answers a
  duplicate key, on \<open>isbn\<close> when the generated id is new, the service throws "A book
  with this ISBN already exists", and the response is 400 with that message. The isbn
  compared is the one of the request after the setter of the path; an isbn equal to a
  stored one is left as it is by the setter (\<open>stored_isbn_trimmed\<close>).
\<close>

theorem create_duplicate_isbn:
  assumes "isbn' d = Some s" and "trim s \<in> set (map isbn (docs m))"
  shows "status (fst (BookController_createBook m now newId d)) = 400 \<and>
         snd (BookController_createBook m now newId d) = m \<and>
         (validationErrors True (yearLimit m) d = [] \<and> connected m \<longrightarrow>
            BookService_createBook m now newId d = Inl isbnExists \<and>
            BookController_createBook m now newId d =
              (failureWith 400 (MessageOf isbnExists) isbnExists, m)) \<and>
         (validationErrors True (yearLimit m) d = [] \<and> connected m \<and>
          newId \<notin> set (map oid (docs m)) \<longrightarrow>
            save m now newId d = Inl (DuplicateKey ''isbn''))"
proof -
  have no: "BookService_createBook m now newId d \<noteq> Inr r" for r
    using save_duplicate_isbn [OF assms, of now newId]
    by (auto simp: createBook_Inr_iff)
  then have "status (fst (BookController_createBook m now newId d)) \<noteq> 201"
    by (auto simp: BookController_createBook_def failure_def failureWith_def
        split: sum.splits)
  from createBook_controller_failure [OF this]
  have fails: "status (fst (BookController_createBook m now newId d)) = 400"
      "snd (BookController_createBook m now newId d) = m"
    by simp_all
  have dup: "BookService_createBook m now newId d = Inl isbnExists \<and>
      BookController_createBook m now newId d =
        (failureWith 400 (MessageOf isbnExists) isbnExists, m)"
    if ok: "validationErrors True (yearLimit m) d = []" and up: "connected m"
  proof -
    obtain key where "save m now newId d = Inl (DuplicateKey key)"
      using save_duplicate_valid [OF assms ok up] by blast
    then have svc: "BookService_createBook m now newId d = Inl isbnExists"
      by (simp add: BookService_createBook_def code_def isbnExists_def)
    with validationErrors_not_falsy [OF ok] show ?thesis
      by (simp add: BookController_createBook_def)
  qed
  have key: "save m now newId d = Inl (DuplicateKey ''isbn'')"
    if "validationErrors True (yearLimit m) d = []" "connected m"
      "newId \<notin> set (map oid (docs m))"
    using that assms by (simp add: save_def Let_def)
  show ?thesis
    using fails dup key by blast
qed

lemma sample_duplicate:
  "isbn' duplicateOfHobbit = Some ''9780547928227'' \<and>
   ''9780547928227'' \<in> set (map isbn (docs sampleModel)) \<and>
   validationErrors True (yearLimit sampleModel) duplicateOfHobbit = [] \<and>
   connected sampleModel \<and> freshId \<notin> set (map oid (docs sampleModel))"
  by code_simp

theorem create_duplicate_isbn_witness:
  "isbn' duplicateOfHobbit = Some ''9780547928227'' \<and>
   ''9780547928227'' \<in> set (map isbn (docs sampleModel)) \<and>
   save sampleModel 5000 freshId duplicateOfHobbit = Inl (DuplicateKey ''isbn'') \<and>
   BookController_createBook sampleModel 5000 freshId duplicateOfHobbit =
     (failureWith 400 (MessageOf isbnExists) isbnExists, sampleModel)"
proof -
  have a: "isbn' duplicateOfHobbit = Some ''9780547928227''"
    and stored: "''9780547928227'' \<in> set (map isbn (docs sampleModel))"
    using sample_duplicate by simp_all
  have b: "trim ''9780547928227'' \<in> set (map isbn (docs sampleModel))"
    using stored stored_isbn_trimmed [OF wellFormed_sample stored] by simp
  have "save sampleModel 5000 freshId duplicateOfHobbit = Inl (DuplicateKey ''isbn'')"
    "BookController_createBook sampleModel 5000 freshId duplicateOfHobbit =
       (failureWith 400 (MessageOf isbnExists) isbnExists, sampleModel)"
    using create_duplicate_isbn [OF a b, of 5000 freshId] sample_duplicate by simp_all
  with a stored show ?thesis by simp
qed

section \<open>What an update changes\<close>

lemma replaceFirst_update:
  "find P xs = Some x \<Longrightarrow> \<exists>n < length xs. xs ! n = x \<and> replaceFirst P y xs = xs[n := y]"
proof (induction xs)
  case Nil
  then show ?case by simp
next
  case (Cons a xs)
  show ?case
  proof (cases "P a")
    case True
    with Cons.prems have "a = x" by simp
    with True have "(a # xs) ! 0 = x \<and> replaceFirst P y (a # xs) = (a # xs)[0 := y]"
      by simp
    then show ?thesis by blast
  next
    case False
    with Cons obtain n where "n < length xs" "xs ! n = x" "replaceFirst P y xs = xs[n := y]"
      by auto
    with False have "Suc n < length (a # xs) \<and> (a # xs) ! Suc n = x \<and>
        replaceFirst P y (a # xs) = (a # xs)[Suc n := y]"
      by simp
    then show ?thesis by blast
  qed
qed

lemma findByIdAndUpdate_Some:
  assumes "findByIdAndUpdate m now i d = Inr (Some b', m')"
  shows "\<exists>k old. castObjectId i = Some k \<and> find (\<lambda>b. oid b = k) (docs m) = Some old \<and>
           b' = applySet now d old \<and>
           m' = m\<lparr>docs := replaceFirst (\<lambda>b. oid b = k) b' (docs m)\<rparr>"
  using assms
  by (auto simp: findByIdAndUpdate_def Let_def split: option.splits if_splits)

lemma findByIdAndUpdate_None:
  "findByIdAndUpdate m now i d = Inr (None, m') \<Longrightarrow> m' = m"
  by (auto simp: findByIdAndUpdate_def Let_def split: option.splits if_splits)

lemma updateBook_Inr_iff:
  "BookService_updateBook m now i d = Inr r \<longleftrightarrow> findByIdAndUpdate m now i d = Inr r"
  by (auto simp: BookService_updateBook_def split: sum.splits if_splits)

lemma updateBook_controller_200:
  assumes "BookController_updateBook m now (Some i) u = (r, m')" and "status r = 200"
  shows "\<exists>b. BookService_updateBook m now i (stripImmutable u) = Inr (Some b, m') \<and>
           r = found 200 ''Book updated successfully'' b"
  using assms
  by (auto simp: BookController_updateBook_def failure_def failureWith_def
      split: if_splits sum.splits option.splits prod.splits)

lemma updateBook_controller_other:
  assumes "BookController_updateBook m now (Some i) u = (r, m')" and "status r \<noteq> 200"
  shows "m' = m"
  using assms
  by (auto simp: BookController_updateBook_def found_def updateBook_Inr_iff
      split: if_splits sum.splits option.splits prod.splits dest: findByIdAndUpdate_None)

lemma stripImmutable_idem:
  "stripImmutable (u\<lparr>oid' := x, createdAt' := y, updatedAt' := z\<rparr>) = stripImmutable u"
  by (simp add: stripImmutable_def)

lemma validationErrors_stripImmutable:
  "validationErrors isNew yl (stripImmutable u) = validationErrors isNew yl u"
  by (simp add: validationErrors_def stripImmutable_def)

lemma applySet_stripImmutable:
  "applySet now (stripImmutable u) old =
     old\<lparr> title := (case title' u of None \<Rightarrow> title old | Some v \<Rightarrow> trim v),
          author := (case author' u of None \<Rightarrow> author old | Some v \<Rightarrow> trim v),
          isbn := (case isbn' u of None \<Rightarrow> isbn old | Some v \<Rightarrow> trim v),
          publishedYear := (case publishedYear' u of None \<Rightarrow> publishedYear old | Some v \<Rightarrow> v),
          genre := (case genre' u of None \<Rightarrow> genre old | Some v \<Rightarrow> trim v),
          price := (case price' u of None \<Rightarrow> price old | Some v \<Rightarrow> v),
          inStock := (case inStock' u of None \<Rightarrow> inStock old | Some v \<Rightarrow> v),
          updatedAt := now \<rparr>"
  by (simp add: applySet_def stripImmutable_def)

lemma findByIdAndUpdate_applies:
  assumes "connected m" and "castObjectId i = Some k"
    and "find (\<lambda>b. oid b = k) (docs m) = Some old"
    and "validationErrors False (yearLimit m) d = []"
    and "oid' d = None"
    and "isbn (applySet now d old) \<notin> set (map isbn (filter (\<lambda>c. oid c \<noteq> k) (docs m)))"
  shows "findByIdAndUpdate m now i d =
           Inr (Some (applySet now d old),
                m\<lparr>docs := replaceFirst (\<lambda>b. oid b = k) (applySet now d old) (docs m)\<rparr>)"
proof -
  have "\<not> (\<exists>c \<in> set (docs m). oid c \<noteq> k \<and> isbn c = isbn (applySet now d old))"
    using assms(6) by (force simp: image_iff)
  then show ?thesis
    using assms(1-5) by (simp add: findByIdAndUpdate_def Let_def)
qed

lemma updateBook_controller_applies:
  assumes "connected m" and "castObjectId i = Some k"
    and "find (\<lambda>b. oid b = k) (docs m) = Some old"
    and "validationErrors False (yearLimit m) u = []"
    and "isbn (applySet now (stripImmutable u) old) \<notin>
           set (map isbn (filter (\<lambda>c. oid c \<noteq> k) (docs m)))"
  shows "BookController_updateBook m now (Some i) u =
           (found 200 ''Book updated successfully'' (applySet now (stripImmutable u) old),
            m\<lparr>docs := replaceFirst (\<lambda>b. oid b = k) (applySet now (stripImmutable u) old) (docs m)\<rparr>)"
proof -
  have "oid' (stripImmutable u) = None" by (simp add: stripImmutable_def)
  from findByIdAndUpdate_applies [OF assms(1-3) _ this assms(5)] assms(4)
  have "findByIdAndUpdate m now i (stripImmutable u) =
      Inr (Some (applySet now (stripImmutable u) old),
           m\<lparr>docs := replaceFirst (\<lambda>b. oid b = k) (applySet now (stripImmutable u) old) (docs m)\<rparr>)"
    by (simp add: validationErrors_stripImmutable)
  then show ?thesis
    using castObjectId_nonempty [OF assms(2)]
    by (simp add: BookController_updateBook_def BookService_updateBook_def falsy_def)
qed

text \<open>
  C4. An update of an existing document, on a reachable store, with a body that passes
  the validators and whose isbn no other document has, is applied: the answer is 200
  with the new document, in which each of the seven schema fields has the supplied
  value (text trimmed by its setter) when the body supplies one and its old value
  otherwise, \<open>_id\<close> and \<open>createdAt\<close> are as they were and \<open>updatedAt\<close> is the time of the
  update; the collection holds the new document in the place of the old one and is
  otherwise as it was. Every answer 200 is of this form, and an update that is not
  answered 200 leaves the collection as it is. What the body says for \<open>_id\<close>,
  \<open>createdAt\<close> and \<open>updatedAt\<close> has no effect on the response or the collection, since
  the handler deletes the three before it calls the service.
\<close>

theorem update_frame:
  assumes "BookController_updateBook m now (Some i) u = (r, m')"
  shows
   "(connected m \<and> castObjectId i = Some k \<and> find (\<lambda>b. oid b = k) (docs m) = Some old \<and>
     validationErrors False (yearLimit m) u = [] \<and>
     (case isbn' u of None \<Rightarrow> isbn old | Some v \<Rightarrow> trim v) \<notin>
       set (map isbn (filter (\<lambda>c. oid c \<noteq> k) (docs m))) \<longrightarrow>
      (let new =
         old\<lparr> title := (case title' u of None \<Rightarrow> title old | Some v \<Rightarrow> trim v),
              author := (case author' u of None \<Rightarrow> author old | Some v \<Rightarrow> trim v),
              isbn := (case isbn' u of None \<Rightarrow> isbn old | Some v \<Rightarrow> trim v),
              publishedYear :=
                (case publishedYear' u of None \<Rightarrow> publishedYear old | Some v \<Rightarrow> v),
              genre := (case genre' u of None \<Rightarrow> genre old | Some v \<Rightarrow> trim v),
              price := (case price' u of None \<Rightarrow> price old | Some v \<Rightarrow> v),
              inStock := (case inStock' u of None \<Rightarrow> inStock old | Some v \<Rightarrow> v),
              updatedAt := now \<rparr>
       in r = found 200 ''Book updated successfully'' new \<and>
          m' = m\<lparr>docs := replaceFirst (\<lambda>b. oid b = k) new (docs m)\<rparr>)) \<and>
    (status r = 200 \<longrightarrow>
      (\<exists>k old new n.
         castObjectId i = Some k \<and> find (\<lambda>b. oid b = k) (docs m) = Some old \<and>
         data r = One new \<and>
         title new = (case title' u of None \<Rightarrow> title old | Some v \<Rightarrow> trim v) \<and>
         author new = (case author' u of None \<Rightarrow> author old | Some v \<Rightarrow> trim v) \<and>
         isbn new = (case isbn' u of None \<Rightarrow> isbn old | Some v \<Rightarrow> trim v) \<and>
         publishedYear new = (case publishedYear' u of None \<Rightarrow> publishedYear old | Some v \<Rightarrow> v) \<and>
         genre new = (case genre' u of None \<Rightarrow> genre old | Some v \<Rightarrow> trim v) \<and>
         price new = (case price' u of None \<Rightarrow> price old | Some v \<Rightarrow> v) \<and>
         inStock new = (case inStock' u of None \<Rightarrow> inStock old | Some v \<Rightarrow> v) \<and>
         oid new = oid old \<and> createdAt new = createdAt old \<and> updatedAt new = now \<and>
         n < length (docs m) \<and> docs m ! n = old \<and> docs m' = (docs m)[n := new] \<and>
         connected m' = connected m \<and> yearLimit m' = yearLimit m)) \<and>
    (status r \<noteq> 200 \<longrightarrow> m' = m) \<and>
    BookController_updateBook m now (Some i)
      (u\<lparr>oid' := x, createdAt' := y, updatedAt' := z\<rparr>) = (r, m')"
proof -
  have applied: "r = found 200 ''Book updated successfully'' (applySet now (stripImmutable u) old) \<and>
      m' = m\<lparr>docs := replaceFirst (\<lambda>b. oid b = k) (applySet now (stripImmutable u) old) (docs m)\<rparr>"
    if "connected m" "castObjectId i = Some k" "find (\<lambda>b. oid b = k) (docs m) = Some old"
      "validationErrors False (yearLimit m) u = []"
      "(case isbn' u of None \<Rightarrow> isbn old | Some v \<Rightarrow> trim v) \<notin>
         set (map isbn (filter (\<lambda>c. oid c \<noteq> k) (docs m)))"
  proof -
    have "isbn (applySet now (stripImmutable u) old) =
        (case isbn' u of None \<Rightarrow> isbn old | Some v \<Rightarrow> trim v)"
      by (simp add: applySet_stripImmutable)
    with that(5) have "isbn (applySet now (stripImmutable u) old) \<notin>
        set (map isbn (filter (\<lambda>c. oid c \<noteq> k) (docs m)))"
      by simp
    from updateBook_controller_applies [OF that(1-4) this] assms show ?thesis
      by simp
  qed
  have first: "connected m \<and> castObjectId i = Some k \<and>
     find (\<lambda>b. oid b = k) (docs m) = Some old \<and>
     validationErrors False (yearLimit m) u = [] \<and>
     (case isbn' u of None \<Rightarrow> isbn old | Some v \<Rightarrow> trim v) \<notin>
       set (map isbn (filter (\<lambda>c. oid c \<noteq> k) (docs m))) \<longrightarrow>
      (let new =
         old\<lparr> title := (case title' u of None \<Rightarrow> title old | Some v \<Rightarrow> trim v),
              author := (case author' u of None \<Rightarrow> author old | Some v \<Rightarrow> trim v),
              isbn := (case isbn' u of None \<Rightarrow> isbn old | Some v \<Rightarrow> trim v),
              publishedYear :=
                (case publishedYear' u of None \<Rightarrow> publishedYear old | Some v \<Rightarrow> v),
              genre := (case genre' u of None \<Rightarrow> genre old | Some v \<Rightarrow> trim v),
              price := (case price' u of None \<Rightarrow> price old | Some v \<Rightarrow> v),
              inStock := (case inStock' u of None \<Rightarrow> inStock old | Some v \<Rightarrow> v),
              updatedAt := now \<rparr>
       in r = found 200 ''Book updated successfully'' new \<and>
          m' = m\<lparr>docs := replaceFirst (\<lambda>b. oid b = k) new (docs m)\<rparr>)"
    unfolding Let_def applySet_stripImmutable [symmetric] using applied by blast
  have second: "status r = 200 \<longrightarrow>
      (\<exists>k old new n.
         castObjectId i = Some k \<and> find (\<lambda>b. oid b = k) (docs m) = Some old \<and>
         data r = One new \<and>
         title new = (case title' u of None \<Rightarrow> title old | Some v \<Rightarrow> trim v) \<and>
         author new = (case author' u of None \<Rightarrow> author old | Some v \<Rightarrow> trim v) \<and>
         isbn new = (case isbn' u of None \<Rightarrow> isbn old | Some v \<Rightarrow> trim v) \<and>
         publishedYear new = (case publishedYear' u of None \<Rightarrow> publishedYear old | Some v \<Rightarrow> v) \<and>
         genre new = (case genre' u of None \<Rightarrow> genre old | Some v \<Rightarrow> trim v) \<and>
         price new = (case price' u of None \<Rightarrow> price old | Some v \<Rightarrow> v) \<and>
         inStock new = (case inStock' u of None \<Rightarrow> inStock old | Some v \<Rightarrow> v) \<and>
         oid new = oid old \<and> createdAt new = createdAt old \<and> updatedAt new = now \<and>
         n < length (docs m) \<and> docs m ! n = old \<and> docs m' = (docs m)[n := new] \<and>
         connected m' = connected m \<and> yearLimit m' = yearLimit m)"
  proof
    assume "status r = 200"
    from updateBook_controller_200 [OF assms this]
    obtain new where svc: "BookService_updateBook m now i (stripImmutable u) = Inr (Some new, m')"
      and r: "r = found 200 ''Book updated successfully'' new"
      by blast
    from svc have "findByIdAndUpdate m now i (stripImmutable u) = Inr (Some new, m')"
      by (simp only: updateBook_Inr_iff)
    from findByIdAndUpdate_Some [OF this]
    obtain k old where k: "castObjectId i = Some k"
      and old: "find (\<lambda>b. oid b = k) (docs m) = Some old"
      and new: "new = applySet now (stripImmutable u) old"
      and m': "m' = m\<lparr>docs := replaceFirst (\<lambda>b. oid b = k) new (docs m)\<rparr>"
      by blast
    from replaceFirst_update [OF old, of new]
    obtain n where n: "n < length (docs m)" "docs m ! n = old"
      "replaceFirst (\<lambda>b. oid b = k) new (docs m) = (docs m)[n := new]"
      by blast
    have fields:
      "title new = (case title' u of None \<Rightarrow> title old | Some v \<Rightarrow> trim v)"
      "author new = (case author' u of None \<Rightarrow> author old | Some v \<Rightarrow> trim v)"
      "isbn new = (case isbn' u of None \<Rightarrow> isbn old | Some v \<Rightarrow> trim v)"
      "publishedYear new = (case publishedYear' u of None \<Rightarrow> publishedYear old | Some v \<Rightarrow> v)"
      "genre new = (case genre' u of None \<Rightarrow> genre old | Some v \<Rightarrow> trim v)"
      "price new = (case price' u of None \<Rightarrow> price old | Some v \<Rightarrow> v)"
      "inStock new = (case inStock' u of None \<Rightarrow> inStock old | Some v \<Rightarrow> v)"
      "oid new = oid old" "createdAt new = createdAt old" "updatedAt new = now"
      by (simp_all add: new applySet_stripImmutable)
    have "data r = One new" by (simp add: r found_def)
    moreover have "docs m' = (docs m)[n := new]" "connected m' = connected m"
      "yearLimit m' = yearLimit m"
      by (simp_all add: m' n(3))
    ultimately show "\<exists>k old new n.
         castObjectId i = Some k \<and> find (\<lambda>b. oid b = k) (docs m) = Some old \<and>
         data r = One new \<and>
         title new = (case title' u of None \<Rightarrow> title old | Some v \<Rightarrow> trim v) \<and>
         author new = (case author' u of None \<Rightarrow> author old | Some v \<Rightarrow> trim v) \<and>
         isbn new = (case isbn' u of None \<Rightarrow> isbn old | Some v \<Rightarrow> trim v) \<and>
         publishedYear new = (case publishedYear' u of None \<Rightarrow> publishedYear old | Some v \<Rightarrow> v) \<and>
         genre new = (case genre' u of None \<Rightarrow> genre old | Some v \<Rightarrow> trim v) \<and>
         price new = (case price' u of None \<Rightarrow> price old | Some v \<Rightarrow> v) \<and>
         inStock new = (case inStock' u of None \<Rightarrow> inStock old | Some v \<Rightarrow> v) \<and>
         oid new = oid old \<and> createdAt new = createdAt old \<and> updatedAt new = now \<and>
         n < length (docs m) \<and> docs m ! n = old \<and> docs m' = (docs m)[n := new] \<and>
         connected m' = connected m \<and> yearLimit m' = yearLimit m"
      using k old fields n(1,2) by blast
  qed
  have third: "status r \<noteq> 200 \<longrightarrow> m' = m"
    using updateBook_controller_other [OF assms] by blast
  have fourth: "BookController_updateBook m now (Some i)
      (u\<lparr>oid' := x, createdAt' := y, updatedAt' := z\<rparr>) = (r, m')"
    using assms unfolding BookController_updateBook_def stripImmutable_idem .
  from first second third fourth show ?thesis by (intro conjI)
qed

lemma sample_update_premises:
  "connected sampleModel \<and>
   castObjectId ''507f1f77bcf86cd799439011'' = Some ''507f1f77bcf86cd799439011'' \<and>
   find (\<lambda>b. oid b = ''507f1f77bcf86cd799439011'') (docs sampleModel) = Some theHobbit \<and>
   validationErrors False (yearLimit sampleModel) priceUpdate = [] \<and>
   (case isbn' priceUpdate of None \<Rightarrow> isbn theHobbit | Some v \<Rightarrow> trim v) \<notin>
     set (map isbn (filter (\<lambda>c. oid c \<noteq> ''507f1f77bcf86cd799439011'') (docs sampleModel)))"
  by code_simp

lemma sample_update_result:
  "theHobbit\<lparr> title := (case title' priceUpdate of None \<Rightarrow> title theHobbit | Some v \<Rightarrow> trim v),
      author := (case author' priceUpdate of None \<Rightarrow> author theHobbit | Some v \<Rightarrow> trim v),
      isbn := (case isbn' priceUpdate of None \<Rightarrow> isbn theHobbit | Some v \<Rightarrow> trim v),
      publishedYear :=
        (case publishedYear' priceUpdate of None \<Rightarrow> publishedYear theHobbit | Some v \<Rightarrow> v),
      genre := (case genre' priceUpdate of None \<Rightarrow> genre theHobbit | Some v \<Rightarrow> trim v),
      price := (case price' priceUpdate of None \<Rightarrow> price theHobbit | Some v \<Rightarrow> v),
      inStock := (case inStock' priceUpdate of None \<Rightarrow> inStock theHobbit | Some v \<Rightarrow> v),
      updatedAt := 6000 \<rparr> =
    theHobbit\<lparr>price := 2499 / 100, inStock := False, updatedAt := 6000\<rparr> \<and>
   replaceFirst (\<lambda>b. oid b = ''507f1f77bcf86cd799439011'')
     (theHobbit\<lparr>price := 2499 / 100, inStock := False, updatedAt := 6000\<rparr>) (docs sampleModel) =
     [cleanCode, briefHistory, theHobbit\<lparr>price := 2499 / 100, inStock := False, updatedAt := 6000\<rparr>]"
  by code_simp

theorem update_frame_witness:
  "connected sampleModel \<and>
   find (\<lambda>b. oid b = ''507f1f77bcf86cd799439011'') (docs sampleModel) = Some theHobbit \<and>
   validationErrors False (yearLimit sampleModel) priceUpdate = [] \<and>
   createdAt' priceUpdate = Some 1 \<and> updatedAt' priceUpdate = Some 2 \<and>
   BookController_updateBook sampleModel 6000 (Some ''507f1f77bcf86cd799439011'') priceUpdate =
     (found 200 ''Book updated successfully''
        (theHobbit\<lparr>price := 2499 / 100, inStock := False, updatedAt := 6000\<rparr>),
      sampleModel\<lparr>docs := [cleanCode, briefHistory,
        theHobbit\<lparr>price := 2499 / 100, inStock := False, updatedAt := 6000\<rparr>]\<rparr>) \<and>
   createdAt (theHobbit\<lparr>price := 2499 / 100, inStock := False, updatedAt := 6000\<rparr>) = 3000"
proof -
  have pair: "BookController_updateBook sampleModel 6000 (Some ''507f1f77bcf86cd799439011'')
        priceUpdate =
      (fst (BookController_updateBook sampleModel 6000 (Some ''507f1f77bcf86cd799439011'')
         priceUpdate),
       snd (BookController_updateBook sampleModel 6000 (Some ''507f1f77bcf86cd799439011'')
         priceUpdate))"
    by simp
  have "fst (BookController_updateBook sampleModel 6000 (Some ''507f1f77bcf86cd799439011'')
          priceUpdate) =
        found 200 ''Book updated successfully''
          (theHobbit\<lparr>price := 2499 / 100, inStock := False, updatedAt := 6000\<rparr>)"
    "snd (BookController_updateBook sampleModel 6000 (Some ''507f1f77bcf86cd799439011'')
          priceUpdate) =
        sampleModel\<lparr>docs := [cleanCode, briefHistory,
          theHobbit\<lparr>price := 2499 / 100, inStock := False, updatedAt := 6000\<rparr>]\<rparr>"
    using update_frame [OF pair, of "''507f1f77bcf86cd799439011''" theHobbit]
      sample_update_premises sample_update_result
    by (simp_all add: Let_def)
  then have "BookController_updateBook sampleModel 6000 (Some ''507f1f77bcf86cd799439011'')
      priceUpdate =
     (found 200 ''Book updated successfully''
        (theHobbit\<lparr>price := 2499 / 100, inStock := False, updatedAt := 6000\<rparr>),
      sampleModel\<lparr>docs := [cleanCode, briefHistory,
        theHobbit\<lparr>price := 2499 / 100, inStock := False, updatedAt := 6000\<rparr>]\<rparr>)"
    by (simp add: prod_eq_iff)
  moreover have "createdAt' priceUpdate = Some 1" "updatedAt' priceUpdate = Some 2"
    "createdAt (theHobbit\<lparr>price := 2499 / 100, inStock := False, updatedAt := 6000\<rparr>) = 3000"
    by (simp_all add: priceUpdate_def theHobbit_def)
  ultimately show ?thesis
    using sample_update_premises by simp
qed

section \<open>Searching by title or author\<close>

lemma startsWithBy_prefix:
  "startsWithBy sameLetter p s \<longleftrightarrow> (\<exists>r. map toLowerCase s = map toLowerCase p @ r)"
  by (induction sameLetter p s rule: startsWithBy.induct) (auto simp: sameLetter_def)

lemma occursBy_infix:
  "occursBy sameLetter p s \<longleftrightarrow> (\<exists>a r. map toLowerCase s = a @ map toLowerCase p @ r)"
proof (induction s)
  case Nil
  then show ?case by (simp add: startsWithBy_prefix)
next
  case (Cons c cs)
  have "(\<exists>a r. map toLowerCase (c # cs) = a @ map toLowerCase p @ r) \<longleftrightarrow>
        (\<exists>r. map toLowerCase (c # cs) = map toLowerCase p @ r) \<or>
        (\<exists>a r. map toLowerCase cs = a @ map toLowerCase p @ r)"
    (is "?L \<longleftrightarrow> ?A \<or> ?B")
  proof
    assume ?L
    then obtain a r where eq: "map toLowerCase (c # cs) = a @ map toLowerCase p @ r" by blast
    show "?A \<or> ?B"
    proof (cases a)
      case Nil
      with eq show ?thesis by auto
    next
      case (Cons x a')
      with eq have "map toLowerCase cs = a' @ map toLowerCase p @ r" by simp
      then show ?thesis by blast
    qed
  next
    assume "?A \<or> ?B"
    then show ?L
    proof
      assume ?A
      then obtain r where "map toLowerCase (c # cs) = [] @ map toLowerCase p @ r" by auto
      then show ?L by blast
    next
      assume ?B
      then obtain a r where "map toLowerCase cs = a @ map toLowerCase p @ r" by blast
      then have "map toLowerCase (c # cs) = (toLowerCase c # a) @ map toLowerCase p @ r" by simp
      then show ?L by blast
    qed
  qed
  with Cons show ?case by (simp add: startsWithBy_prefix)
qed

lemma containsIgnoreCase_iff:
  "containsIgnoreCase text s \<longleftrightarrow>
     (\<exists>before after. map toLowerCase s = before @ map toLowerCase text @ after)"
  by (simp add: containsIgnoreCase_def occursBy_infix)

lemma startsWithBy_cong:
  "(\<And>x c. x \<in> set p \<Longrightarrow> eq1 x c = eq2 x c) \<Longrightarrow> startsWithBy eq1 p s = startsWithBy eq2 p s"
  by (induction eq1 p s rule: startsWithBy.induct) auto

lemma occursBy_cong:
  "(\<And>x c. x \<in> set p \<Longrightarrow> eq1 x c = eq2 x c) \<Longrightarrow> occursBy eq1 p s = occursBy eq2 p s"
  by (induction s) (auto simp: startsWithBy_cong [of p eq1 eq2])

lemma regexSpecial_dot: "regexSpecial (CHR ''.'')"
  by (simp add: regexSpecial_def)

lemma plain_text_regex:
  assumes "list_all (\<lambda>c. \<not> regexSpecial c) q"
  shows "regexIgnoreCase engine q = Some (containsIgnoreCase q)"
proof -
  have nodot: "x \<noteq> CHR ''.''" if "x \<in> set q" for x
    using assms that regexSpecial_dot by (auto simp: list_all_iff)
  have "occursBy dotOrLetter q s = occursBy sameLetter q s" for s
    by (rule occursBy_cong) (simp add: dotOrLetter_def nodot)
  then have "occursBy dotOrLetter q = containsIgnoreCase q"
    by (auto simp: containsIgnoreCase_def)
  moreover have "list_all (\<lambda>c. \<not> regexSpecial c \<or> c = CHR ''.'') q"
    using assms by (auto simp: list_all_iff)
  ultimately show ?thesis by (simp add: regexIgnoreCase_def)
qed

lemma search_plain_text:
  assumes "connected m" and "list_all (\<lambda>c. \<not> regexSpecial c) q"
  shows "BookService_searchBooks engine m q =
           Inr (newestFirst (filter (\<lambda>b. containsIgnoreCase q (title b) \<or>
                                          containsIgnoreCase q (author b)) (docs m)))"
  using assms(1) by (simp add: BookService_searchBooks_def findRegex_def plain_text_regex [OF assms(2)])

lemma search_hobbit:
  "containsIgnoreCase ''Hobbit'' ''The Hobbit'' \<and> containsIgnoreCase ''Hobbit'' ''hobbiton'' \<and>
   BookService_searchBooks engine sampleModel ''Hobbit'' = Inr [theHobbit]"
proof -
  have "list_all (\<lambda>c. \<not> regexSpecial c) ''Hobbit''" by code_simp
  moreover have "connected sampleModel" by (simp add: sampleModel_def)
  moreover have "newestFirst (filter (\<lambda>b. containsIgnoreCase ''Hobbit'' (title b) \<or>
      containsIgnoreCase ''Hobbit'' (author b)) (docs sampleModel)) = [theHobbit]"
    by code_simp
  moreover have "containsIgnoreCase ''Hobbit'' ''The Hobbit''"
    "containsIgnoreCase ''Hobbit'' ''hobbiton''"
    by code_simp+
  ultimately show ?thesis by (simp add: search_plain_text)
qed

lemma search_uncompiled_pattern:
  assumes "connected m" and "\<not> list_all (\<lambda>c. \<not> regexSpecial c \<or> c = CHR ''.'') q"
    and "engine q = None"
  shows "status (BookController_searchBooks engine m (Str q)) = 500"
proof -
  have none: "regexIgnoreCase engine q = None"
    using assms(2,3) by (simp only: regexIgnoreCase_def if_False)
  obtain c cs where q: "q = c # cs"
    using assms(2) by (cases q) auto
  show ?thesis
    using assms(1) none unfolding q
    by (simp add: BookController_searchBooks_def BookService_searchBooks_def findRegex_def
        failureWith_def)
qed

lemma dot_regex: "regexIgnoreCase engine ''.'' = Some (occursBy dotOrLetter ''.'')"
  by (simp add: regexIgnoreCase_def)

text \<open>
  C5, at the text \<open>.\<close>: the search hands the text to the store as a regular expression,
  in which a dot stands for any character. Every book of the sample collection is
  returned, "A Brief History of Time" by Stephen Hawking among them, although neither
  its title nor its author contains a dot; the books whose title or author contains
  the text are two.
\<close>

theorem search_dot_is_a_wildcard:
  "BookService_searchBooks engine sampleModel ''.'' = Inr [theHobbit, briefHistory, cleanCode] \<and>
   \<not> containsIgnoreCase ''.'' (title briefHistory) \<and>
   \<not> containsIgnoreCase ''.'' (author briefHistory) \<and>
   filter (\<lambda>b. containsIgnoreCase ''.'' (title b) \<or> containsIgnoreCase ''.'' (author b))
     (docs sampleModel) = [cleanCode, theHobbit]"
proof -
  have "newestFirst (filter (\<lambda>b. occursBy dotOrLetter ''.'' (title b) \<or>
      occursBy dotOrLetter ''.'' (author b)) (docs sampleModel)) =
      [theHobbit, briefHistory, cleanCode]"
    by code_simp
  moreover have "connected sampleModel" by (simp add: sampleModel_def)
  ultimately have "BookService_searchBooks engine sampleModel ''.'' =
      Inr [theHobbit, briefHistory, cleanCode]"
    by (simp add: BookService_searchBooks_def findRegex_def dot_regex)
  moreover have "\<not> containsIgnoreCase ''.'' (title briefHistory)"
    "\<not> containsIgnoreCase ''.'' (author briefHistory)"
    "filter (\<lambda>b. containsIgnoreCase ''.'' (title b) \<or> containsIgnoreCase ''.'' (author b))
       (docs sampleModel) = [cleanCode, theHobbit]"
    by code_simp+
  ultimately show ?thesis by simp
qed

theorem search_dot_is_a_wildcard_witness:
  "BookService_searchBooks noEngine sampleModel ''.'' = Inr [theHobbit, briefHistory, cleanCode] \<and>
   \<not> containsIgnoreCase ''.'' (title briefHistory) \<and>
   \<not> containsIgnoreCase ''.'' (author briefHistory)"
  using search_dot_is_a_wildcard [of noEngine] by simp

section \<open>The collection stays well-formed\<close>

lemma save_bookValid:
  assumes "save m now newId d = Inr (b, m')"
  shows "bookValid (yearLimit m) b"
proof -
  note facts = save_Inr [OF assms]
  then have ok: "validationErrors True (yearLimit m) d = []" by simp
  from validationErrors_new_present [OF ok]
  obtain t a i y g p where d: "title' d = Some t" "author' d = Some a" "isbn' d = Some i"
      "publishedYear' d = Some y" "genre' d = Some g" "price' d = Some p"
    by auto
  from ok have "titleValid (trim t)" "authorValid (trim a)" "isbnValid (trim i)"
      "publishedYearValid (yearLimit m) y" "genreValid (trim g)" "priceValid p"
    by (auto simp: validationErrors_def d dest: checkPath_empty)
  moreover have "title b = trim t" "author b = trim a" "isbn b = trim i" "publishedYear b = y"
      "genre b = trim g" "price b = p"
    using facts d by simp_all
  ultimately show ?thesis by (simp add: bookValid_def)
qed

lemma save_wellFormed:
  assumes "wellFormed m" and "save m now newId d = Inr (b, m')"
  shows "wellFormed m'"
proof -
  note facts = save_Inr [OF assms(2)]
  have b: "oid b = newId" "isbn b = trim (the (isbn' d))"
    using facts by simp_all
  have "docs m' = docs m @ [b]" "yearLimit m' = yearLimit m"
    using facts by simp_all
  moreover have "oid b \<notin> set (map oid (docs m))" "isbn b \<notin> set (map isbn (docs m))"
    using facts unfolding b by simp_all
  ultimately show ?thesis
    using assms(1) save_bookValid [OF assms(2)] by (simp add: wellFormed_def)
qed

lemma applySet_bookValid:
  assumes "bookValid yl old" and "validationErrors False yl d = []"
  shows "bookValid yl (applySet now d old)"
proof -
  have "titleValid (case title' d of None \<Rightarrow> title old | Some v \<Rightarrow> trim v)"
    using assms by (cases "title' d") (auto simp: validationErrors_def bookValid_def dest: checkPath_empty)
  moreover have "authorValid (case author' d of None \<Rightarrow> author old | Some v \<Rightarrow> trim v)"
    using assms by (cases "author' d") (auto simp: validationErrors_def bookValid_def dest: checkPath_empty)
  moreover have "isbnValid (case isbn' d of None \<Rightarrow> isbn old | Some v \<Rightarrow> trim v)"
    using assms by (cases "isbn' d") (auto simp: validationErrors_def bookValid_def dest: checkPath_empty)
  moreover have "publishedYearValid yl (case publishedYear' d of None \<Rightarrow> publishedYear old | Some v \<Rightarrow> v)"
    using assms by (cases "publishedYear' d") (auto simp: validationErrors_def bookValid_def dest: checkPath_empty)
  moreover have "genreValid (case genre' d of None \<Rightarrow> genre old | Some v \<Rightarrow> trim v)"
    using assms by (cases "genre' d") (auto simp: validationErrors_def bookValid_def dest: checkPath_empty)
  moreover have "priceValid (case price' d of None \<Rightarrow> price old | Some v \<Rightarrow> v)"
    using assms by (cases "price' d") (auto simp: validationErrors_def bookValid_def dest: checkPath_empty)
  ultimately show ?thesis by (simp add: bookValid_def applySet_def)
qed

lemma findByIdAndUpdate_checks:
  assumes "findByIdAndUpdate m now i d = Inr (Some b', m')" and "castObjectId i = Some k"
  shows "validationErrors False (yearLimit m) d = [] \<and>
         (\<forall>c \<in> set (docs m). oid c \<noteq> k \<longrightarrow> isbn c \<noteq> isbn b')"
  using assms
  by (auto simp: findByIdAndUpdate_def Let_def split: option.splits if_splits)

lemma distinct_update_other:
  assumes "distinct xs" and "n < length xs" and "\<forall>j < length xs. j \<noteq> n \<longrightarrow> xs ! j \<noteq> v"
  shows "distinct (xs[n := v])"
  using assms by (auto simp: distinct_conv_nth nth_list_update)

lemma findByIdAndUpdate_wellFormed:
  assumes wf: "wellFormed m" and upd: "findByIdAndUpdate m now i d = Inr (r, m')"
  shows "wellFormed m'"
proof (cases r)
  case None
  with upd findByIdAndUpdate_None have "m' = m" by blast
  with wf show ?thesis by simp
next
  case (Some b')
  with upd have upd': "findByIdAndUpdate m now i d = Inr (Some b', m')" by simp
  from findByIdAndUpdate_Some [OF upd']
  obtain k old where k: "castObjectId i = Some k"
    and old: "find (\<lambda>b. oid b = k) (docs m) = Some old"
    and b': "b' = applySet now d old"
    and m': "m' = m\<lparr>docs := replaceFirst (\<lambda>b. oid b = k) b' (docs m)\<rparr>"
    by blast
  from findByIdAndUpdate_checks [OF upd' k]
  have ok: "validationErrors False (yearLimit m) d = []"
    and nodup: "\<forall>c \<in> set (docs m). oid c \<noteq> k \<longrightarrow> isbn c \<noteq> isbn b'"
    by simp_all
  from replaceFirst_update [OF old, of b']
  obtain n where n: "n < length (docs m)" "docs m ! n = old"
    and rep: "replaceFirst (\<lambda>b. oid b = k) b' (docs m) = (docs m)[n := b']"
    by blast
  have oldk: "oid old = k" "old \<in> set (docs m)"
    using find_SomeD [OF old] by simp_all
  have oidb: "oid b' = k"
    by (simp add: b' applySet_def oldk)
  have dm': "docs m' = (docs m)[n := b']" and yl: "yearLimit m' = yearLimit m"
    by (simp_all add: m' rep)
  have d_oid: "distinct (map oid (docs m))" and d_isbn: "distinct (map isbn (docs m))"
    and valid: "list_all (bookValid (yearLimit m)) (docs m)"
    using wf by (simp_all add: wellFormed_def)
  have "map oid (docs m') = (map oid (docs m))[n := k]"
    by (simp add: dm' map_update oidb)
  also have "\<dots> = map oid (docs m)"
    using n oldk by (simp add: list_update_same_conv)
  finally have 1: "distinct (map oid (docs m'))"
    using d_oid by simp
  have other: "oid (docs m ! j) \<noteq> k" if "j < length (docs m)" "j \<noteq> n" for j
  proof
    assume "oid (docs m ! j) = k"
    then have "map oid (docs m) ! j = map oid (docs m) ! n"
      using that n oldk by simp
    moreover have "j < length (map oid (docs m))" "n < length (map oid (docs m))"
      using that n by simp_all
    ultimately have "j = n"
      using d_oid by (simp only: nth_eq_iff_index_eq)
    with that show False by simp
  qed
  have "\<forall>j < length (map isbn (docs m)). j \<noteq> n \<longrightarrow> map isbn (docs m) ! j \<noteq> isbn b'"
    using other nodup by (auto simp: all_set_conv_all_nth)
  with d_isbn n have "distinct ((map isbn (docs m))[n := isbn b'])"
    by (intro distinct_update_other) simp_all
  then have 2: "distinct (map isbn (docs m'))"
    by (simp add: dm' map_update)
  have "bookValid (yearLimit m) old"
    using valid oldk by (simp add: list_all_iff)
  then have "bookValid (yearLimit m) b'"
    unfolding b' using ok by (rule applySet_bookValid)
  moreover have "set (docs m') \<subseteq> insert b' (set (docs m))"
    unfolding dm' by (rule set_update_subset_insert)
  ultimately have 3: "list_all (bookValid (yearLimit m')) (docs m')"
    using valid by (auto simp: list_all_iff yl)
  from 1 2 3 show ?thesis by (simp add: wellFormed_def)
qed

lemma service_keeps_wellFormed:
  "wellFormed m \<Longrightarrow> BookService_createBook m now newId d = Inr (b, m') \<Longrightarrow> wellFormed m'"
  "wellFormed m \<Longrightarrow> BookService_updateBook m now i u = Inr (r, m') \<Longrightarrow> wellFormed m'"
  "wellFormed m \<Longrightarrow> BookService_deleteBook m i = Inr (r, m') \<Longrightarrow> wellFormed m'"
proof -
  show "wellFormed m \<Longrightarrow> BookService_createBook m now newId d = Inr (b, m') \<Longrightarrow> wellFormed m'"
    by (simp only: createBook_Inr_iff) (rule save_wellFormed)
  show "wellFormed m \<Longrightarrow> BookService_updateBook m now i u = Inr (r, m') \<Longrightarrow> wellFormed m'"
    by (simp only: updateBook_Inr_iff) (rule findByIdAndUpdate_wellFormed)
  show "wellFormed m \<Longrightarrow> BookService_deleteBook m i = Inr (r, m') \<Longrightarrow> wellFormed m'"
    by (auto simp: BookService_deleteBook_def split: sum.splits
        intro: findByIdAndDelete_wellFormed)
qed

lemma wellFormed_empty: "wellFormed \<lparr> docs = [], connected = c, yearLimit = y \<rparr>"
  by (simp add: wellFormed_def)

end
